theory Spec2Isabelle
  imports Complex_Main "HOL-Library.Sublist" "HOL-Library.Log_Nat"
begin

section \<open>Quote engine (quote_engine.py)\<close>

text \<open>
  In this module Python floats are modelled as \<^typ>\<open>real\<close>: rounding, infinities and NaN
  are outside the model. The exceptions that float arithmetic raises are inside it: a float division by
  zero raises ZeroDivisionError, and multiplying a float by an int that is too large to
  convert to a float raises OverflowError.
\<close>

datatype error =
    ValueError_Unknown_material string
  | OverflowError
  | ZeroDivisionError

datatype Material = Material (mat_name: string) (price_per_ml_with_loss: real)

datatype TypePiece = TypePiece (tp_name: string) (factor: real)

datatype Typology = Typology (ty_name: string) (bag_price: real)

text \<open>The attributes of a loaded \<open>QuoteEngine\<close> that \<open>compute_quote\<close> reads.\<close>

record engine =
  materials :: "string \<rightharpoonup> Material"
  type_pieces :: "string \<rightharpoonup> TypePiece"
  typologies :: "string \<rightharpoonup> Typology"
  markup_table :: "(real \<times> real) list"
  packaging_table :: "(real \<times> real) list"
  post_rate :: real
  finish_rate :: real
  tva_rate :: real
  machine_hour_rate :: real
  machine_time_per_ml :: real
  shipping_retrait :: real
  shipping_delivery :: real
  material_support_percent :: "string \<rightharpoonup> real"
  material_print_speed :: "string \<rightharpoonup> real"
  time_factor :: real

text \<open>The dictionary returned by \<open>compute_quote\<close>, one field per key.\<close>

record breakdown =
  material_cost :: real
  machine_cost :: real
  base_cost :: real
  post_cost :: real
  finish_cost :: real
  painting_cost :: real
  total_cost_before_markup :: real
  markup_factor :: real
  price_ht_plate :: real
  packaging_cost :: real
  bag_cost :: real
  shipping_cost :: real
  total_ht :: real
  vat :: real
  total_ttc :: real
  volume_with_supports_ml :: real
  print_time_minutes :: real

text \<open>
  The loop shared by \<open>_get_markup_factor\<close> and \<open>_get_packaging_cost\<close>: the current
  value is replaced by each row whose threshold is at most the volume, and the scan
  stops (\<open>break\<close>) at the first row whose threshold exceeds it.
\<close>

fun tier_scan :: "real \<Rightarrow> (real \<times> real) list \<Rightarrow> real \<Rightarrow> real" where
  "tier_scan cur [] volume_ml = cur"
| "tier_scan cur ((ml_min, f) # rest) volume_ml =
     (if volume_ml \<ge> ml_min then tier_scan f rest volume_ml else cur)"

definition get_markup_factor :: "engine \<Rightarrow> real \<Rightarrow> real" where
  "get_markup_factor self volume_ml = tier_scan 1 (markup_table self) volume_ml"

definition get_packaging_cost :: "engine \<Rightarrow> real \<Rightarrow> real" where
  "get_packaging_cost self total_volume_ml = tier_scan 0 (packaging_table self) total_volume_ml"

text \<open>
  The implicit conversion of the int \<open>quantity\<close> in \<open>volume_ml * quantity\<close> and
  \<open>bag_price * quantity\<close>: CPython raises OverflowError when the int rounds to a value
  beyond the largest finite double.
\<close>

definition float_of_int :: "int \<Rightarrow> error + real" where
  "float_of_int q =
     (if 2 ^ 1024 - 2 ^ 970 \<le> \<bar>q\<bar> then Inl OverflowError else Inr (real_of_int q))"

text \<open>\<open>self.type_pieces.get(type_piece_name, TypePiece(type_piece_name, 1.0)).factor\<close>\<close>

definition type_factor_of :: "engine \<Rightarrow> string \<Rightarrow> real" where
  "type_factor_of self type_piece_name =
     factor (case type_pieces self type_piece_name of
               None \<Rightarrow> TypePiece type_piece_name 1
             | Some tp \<Rightarrow> tp)"

text \<open>\<open>self.typologies.get(typology_name, Typology(typology_name, 0.0)).bag_price\<close>\<close>

definition bag_price_of :: "engine \<Rightarrow> string \<Rightarrow> real" where
  "bag_price_of self typology_name =
     bag_price (case typologies self typology_name of
                  None \<Rightarrow> Typology typology_name 0
                | Some ty \<Rightarrow> ty)"

text \<open>\<open>self.material_support_percent.get(material_name, 0.0)\<close>\<close>

definition support_percent_of :: "engine \<Rightarrow> string \<Rightarrow> real" where
  "support_percent_of self material_name =
     (case material_support_percent self material_name of None \<Rightarrow> 0 | Some s \<Rightarrow> s)"

text \<open>The printing speed in mm/s: the configured value is in tenths of mm/s.\<close>

definition speed_mm_s :: "engine \<Rightarrow> string \<Rightarrow> real" where
  "speed_mm_s self material_name =
     (case material_print_speed self material_name of
        None \<Rightarrow> 1
      | Some speed_tenth \<Rightarrow> speed_tenth / 10)"

text \<open>The two estimates of the print time, lines 303 to 316 of the source.\<close>

definition machine_time_hours ::
  "engine \<Rightarrow> string \<Rightarrow> real \<Rightarrow> real \<Rightarrow> real option \<Rightarrow> error + real" where
  "machine_time_hours self material_name volume_with_supports type_factor largest_dimension_mm =
     (case largest_dimension_mm of
        Some d \<Rightarrow>
          (if speed_mm_s self material_name = 0 then Inl ZeroDivisionError
           else (let time_seconds = (d * time_factor self) / speed_mm_s self material_name
                 in Inr (time_seconds / 3600)))
      | None \<Rightarrow> Inr (volume_with_supports * machine_time_per_ml self * type_factor))"

text \<open>The rest of \<open>compute_quote\<close> once the machine time is known (lines 317 to 362).\<close>

definition price_breakdown ::
  "engine \<Rightarrow> real \<Rightarrow> real \<Rightarrow> real \<Rightarrow> real \<Rightarrow> real \<Rightarrow> string \<Rightarrow> bool \<Rightarrow> real
     \<Rightarrow> breakdown" where
  "price_breakdown self quantity eff_volume_ml volume_with_supports
       material_cost_v hours shipping_method add_painting bag_price_v =
     (let machine_cost_v = hours * machine_hour_rate self;
          base_cost_v = material_cost_v + machine_cost_v;
          post_cost_v = base_cost_v * post_rate self;
          finish_cost_v = base_cost_v * finish_rate self;
          painting_cost_v = (if add_painting then 0 else 0);
          total_cost_before_markup_v = base_cost_v + post_cost_v + finish_cost_v + painting_cost_v;
          markup_factor_v = get_markup_factor self eff_volume_ml;
          price_ht_plate_v = total_cost_before_markup_v * markup_factor_v;
          packaging_cost_v = get_packaging_cost self eff_volume_ml;
          bag_cost_v = bag_price_v * quantity;
          shipping_cost_v =
            (if shipping_method = ''retrait'' then shipping_retrait self
             else shipping_delivery self);
          total_ht_v = price_ht_plate_v + packaging_cost_v + bag_cost_v + shipping_cost_v;
          vat_v = total_ht_v * tva_rate self;
          total_ttc_v = total_ht_v + vat_v;
          print_time_minutes_v = hours * 60
      in \<lparr> material_cost = material_cost_v,
           machine_cost = machine_cost_v,
           base_cost = base_cost_v,
           post_cost = post_cost_v,
           finish_cost = finish_cost_v,
           painting_cost = painting_cost_v,
           total_cost_before_markup = total_cost_before_markup_v,
           markup_factor = markup_factor_v,
           price_ht_plate = price_ht_plate_v,
           packaging_cost = packaging_cost_v,
           bag_cost = bag_cost_v,
           shipping_cost = shipping_cost_v,
           total_ht = total_ht_v,
           vat = vat_v,
           total_ttc = total_ttc_v,
           volume_with_supports_ml = volume_with_supports,
           print_time_minutes = print_time_minutes_v \<rparr>)"

definition clamp_quantity :: "int \<Rightarrow> int" where
  "clamp_quantity quantity = (if quantity < 1 then 1 else quantity)"

definition eff_volume_ml :: "real \<Rightarrow> real \<Rightarrow> real" where
  "eff_volume_ml volume_ml quantity = volume_ml * quantity"

definition volume_with_supports :: "engine \<Rightarrow> string \<Rightarrow> real \<Rightarrow> real" where
  "volume_with_supports self material_name eff_volume =
     eff_volume * (1 + support_percent_of self material_name / 100)"

definition compute_quote ::
  "engine \<Rightarrow> real \<Rightarrow> string \<Rightarrow> string \<Rightarrow> string \<Rightarrow> int \<Rightarrow> string \<Rightarrow> bool \<Rightarrow> real option
     \<Rightarrow> error + breakdown" where
  "compute_quote self volume_ml material_name type_piece_name typology_name quantity
       shipping_method add_painting largest_dimension_mm =
     (let quantity = clamp_quantity quantity in
      case materials self material_name of
        None \<Rightarrow> Inl (ValueError_Unknown_material material_name)
      | Some mat \<Rightarrow>
          (let type_factor = type_factor_of self type_piece_name;
               bag_price_v = bag_price_of self typology_name
           in case float_of_int quantity of
                Inl e \<Rightarrow> Inl e
              | Inr q \<Rightarrow>
                  (let eff = eff_volume_ml volume_ml q;
                       vws = volume_with_supports self material_name eff;
                       material_cost_v = vws * price_per_ml_with_loss mat * type_factor
                   in case machine_time_hours self material_name vws type_factor
                             largest_dimension_mm of
                        Inl e \<Rightarrow> Inl e
                      | Inr hours \<Rightarrow>
                          Inr (price_breakdown self q eff vws material_cost_v
                                 hours shipping_method add_painting bag_price_v))))"

section \<open>Mesh volume extractor (stl_volume.py)\<close>

text \<open>
  A \<open>bytes\<close> object is a list of 8-bit characters. The library functions that the module
  calls and that are not part of the repository are parameters of the model:
  \<open>data.decode("utf-8", errors="ignore").splitlines()\<close>, \<open>str.strip\<close>, \<open>str.lower\<close>,
  \<open>str.split\<close>, \<open>float\<close> (\<open>None\<close> for ValueError) and \<open>struct.unpack("<f", _)\<close>.

  In this module a float is a \<^typ>\<open>real\<close> and every arithmetic operation rounds its exact
  result to double precision (53 significant bits, to nearest, ties to even), as
  CPython does. The bounded exponent range of a double is outside the model: overflow
  to infinity, subnormal numbers, NaN and the sign of zero.
\<close>

type_synonym bytes = "char list"

type_synonym vertex = "real \<times> real \<times> real"

type_synonym facet = "vertex \<times> vertex \<times> vertex"

record pylib =
  decode_splitlines :: "bytes \<Rightarrow> string list"
  str_strip :: "string \<Rightarrow> string"
  str_lower :: "string \<Rightarrow> string"
  str_split :: "string \<Rightarrow> string list"
  float_of_str :: "string \<Rightarrow> real option"
  unpack_float :: "bytes \<Rightarrow> real"

text \<open>Python's \<open>xs[a:b]\<close> for \<open>0 \<le> a \<le> b\<close>.\<close>

definition slice :: "nat \<Rightarrow> nat \<Rightarrow> 'a list \<Rightarrow> 'a list" where
  "slice a b xs = take (b - a) (drop a xs)"

definition vertex_of_line :: "pylib \<Rightarrow> string \<Rightarrow> vertex option" where
  "vertex_of_line lib line0 =
     (let line = str_strip lib line0 in
      if prefix ''vertex'' (str_lower lib line) then
        (let parts = str_split lib line in
         if length parts < 4 then None
         else (case float_of_str lib (parts ! 1) of
                 None \<Rightarrow> None
               | Some x \<Rightarrow>
                   (case float_of_str lib (parts ! 2) of
                      None \<Rightarrow> None
                    | Some y \<Rightarrow>
                        (case float_of_str lib (parts ! 3) of
                           None \<Rightarrow> None
                         | Some z \<Rightarrow> Some (x, y, z)))))
      else None)"

definition parse_ascii_vertices :: "pylib \<Rightarrow> string list \<Rightarrow> vertex list" where
  "parse_ascii_vertices lib lines = List.map_filter (vertex_of_line lib) lines"

definition unpack_3f :: "pylib \<Rightarrow> bytes \<Rightarrow> vertex" where
  "unpack_3f lib bs =
     (unpack_float lib (slice 0 4 bs), unpack_float lib (slice 4 8 bs),
      unpack_float lib (slice 8 12 bs))"

fun parse_binary_facets :: "pylib \<Rightarrow> bytes \<Rightarrow> facet list" where
  "parse_binary_facets lib data =
     (if length data < 50 then []
      else (let chunk = take 50 data;
                v1 = unpack_3f lib (slice 12 24 chunk);
                v2 = unpack_3f lib (slice 24 36 chunk);
                v3 = unpack_3f lib (slice 36 48 chunk)
            in (v1, v2, v3) # parse_binary_facets lib (drop 50 data)))"

declare parse_binary_facets.simps [simp del]

text \<open>The binary exponent of a positive number: the \<open>e\<close> with \<open>2 ^ e \<le> a < 2 ^ (e + 1)\<close>.\<close>

definition exponent2 :: "real \<Rightarrow> int" where
  "exponent2 a = (if 1 \<le> a then bitlen \<lfloor>a\<rfloor> - 1 else - bitlen (\<lceil>1 / a\<rceil> - 1))"

text \<open>
  Rounding to double precision: the nearest multiple of the unit in the last place,
  the one with the even multiplier when two are equally near.
\<close>

definition round_double :: "real \<Rightarrow> real" where
  "round_double x =
     (if x = 0 then 0
      else (let a = \<bar>x\<bar>;
                ulp = 2 powi (exponent2 a - 52);
                n = a / ulp;
                f = \<lfloor>n\<rfloor>;
                r = n - of_int f;
                m = (if r < 1 / 2 then f
                     else if 1 / 2 < r then f + 1
                     else if even f then f else f + 1)
            in sgn x * (of_int m * ulp)))"

text \<open>The float operations \<open>+\<close>, \<open>-\<close>, \<open>*\<close> and \<open>/\<close> (by a divisor that is not zero).\<close>

definition fadd :: "real \<Rightarrow> real \<Rightarrow> real" where
  "fadd a b = round_double (a + b)"

definition fsub :: "real \<Rightarrow> real \<Rightarrow> real" where
  "fsub a b = round_double (a - b)"

definition fmul :: "real \<Rightarrow> real \<Rightarrow> real" where
  "fmul a b = round_double (a * b)"

definition fdiv :: "real \<Rightarrow> real \<Rightarrow> real" where
  "fdiv a b = round_double (a / b)"

fun signed_tetrahedron_volume :: "vertex \<Rightarrow> vertex \<Rightarrow> vertex \<Rightarrow> real" where
  "signed_tetrahedron_volume (v1_0, v1_1, v1_2) (v2_0, v2_1, v2_2) (v3_0, v3_1, v3_2) =
     (let cx = fsub (fmul v2_1 v3_2) (fmul v2_2 v3_1);
          cy = fsub (fmul v2_2 v3_0) (fmul v2_0 v3_2);
          cz = fsub (fmul v2_0 v3_1) (fmul v2_1 v3_0);
          dot = fadd (fadd (fmul v1_0 cx) (fmul v1_1 cy)) (fmul v1_2 cz)
      in fdiv dot 6)"

text \<open>
  The local variables of \<open>compute_volume_and_bbox\<close>. A bound that is \<open>None\<close> still has
  its initial value: \<open>float("inf")\<close> for a minimum, \<open>float("-inf")\<close> for a maximum.
\<close>

record scan_state =
  total_volume_mm3 :: real
  min_x :: "real option"
  min_y :: "real option"
  min_z :: "real option"
  max_x :: "real option"
  max_y :: "real option"
  max_z :: "real option"

definition init_state :: scan_state where
  "init_state = \<lparr> total_volume_mm3 = 0, min_x = None, min_y = None, min_z = None,
                   max_x = None, max_y = None, max_z = None \<rparr>"

fun py_min :: "real option \<Rightarrow> real \<Rightarrow> real option" where
  "py_min None x = Some x"
| "py_min (Some m) x = Some (min m x)"

fun py_max :: "real option \<Rightarrow> real \<Rightarrow> real option" where
  "py_max None x = Some x"
| "py_max (Some m) x = Some (max m x)"

fun update_bounds :: "scan_state \<Rightarrow> vertex \<Rightarrow> scan_state" where
  "update_bounds st (x, y, z) =
     st \<lparr> min_x := py_min (min_x st) x, min_y := py_min (min_y st) y,
          min_z := py_min (min_z st) z, max_x := py_max (max_x st) x,
          max_y := py_max (max_y st) y, max_z := py_max (max_z st) z \<rparr>"

definition add_volume :: "scan_state \<Rightarrow> facet \<Rightarrow> scan_state" where
  "add_volume st f =
     (case f of (v1, v2, v3) \<Rightarrow>
        st \<lparr> total_volume_mm3 :=
               fadd (total_volume_mm3 st) (signed_tetrahedron_volume v1 v2 v3) \<rparr>)"

text \<open>
  The loop of the text branch: the second argument is the list \<open>vertices\<close>, which is
  emptied each time it holds three vertices.
\<close>

fun ascii_loop :: "vertex list \<Rightarrow> vertex list \<Rightarrow> scan_state \<Rightarrow> scan_state" where
  "ascii_loop [] vertices st = st"
| "ascii_loop (v # vs) vertices st =
     (let st1 = update_bounds st v in
      case vertices @ [v] of
        [v1, v2, v3] \<Rightarrow> ascii_loop vs [] (add_volume st1 (v1, v2, v3))
      | vertices1 \<Rightarrow> ascii_loop vs vertices1 st1)"

text \<open>
  The loop of the binary branch: a facet is processed before \<open>count\<close> is compared with
  \<open>num_triangles\<close>.
\<close>

fun binary_loop :: "nat \<Rightarrow> nat \<Rightarrow> facet list \<Rightarrow> scan_state \<Rightarrow> scan_state" where
  "binary_loop num_triangles count [] st = st"
| "binary_loop num_triangles count ((v1, v2, v3) # fs) st =
     (let st1 = update_bounds (update_bounds (update_bounds st v1) v2) v3;
          st2 = add_volume st1 (v1, v2, v3);
          count1 = count + 1
      in if count1 \<ge> num_triangles then st2
         else binary_loop num_triangles count1 fs st2)"

text \<open>\<open>max - min if max > min else 0.0\<close>\<close>

fun extent :: "real option \<Rightarrow> real option \<Rightarrow> real" where
  "extent (Some mx) (Some mn) = (if mx > mn then fsub mx mn else 0)"
| "extent _ _ = 0"

definition finish :: "scan_state \<Rightarrow> real \<times> (real \<times> real \<times> real)" where
  "finish st =
     (let volume_ml = fdiv \<bar>total_volume_mm3 st\<bar> 1000;
          length_mm = extent (max_x st) (min_x st);
          width_mm = extent (max_y st) (min_y st);
          height_mm = extent (max_z st) (min_z st);
          dims = rev (sort [length_mm, width_mm, height_mm])
      in (volume_ml, (dims ! 0, dims ! 1, dims ! 2)))"

text \<open>\<open>bytes.lower\<close> maps the ASCII letters A to Z to lower case and keeps every other byte.\<close>

definition lower_byte :: "char \<Rightarrow> char" where
  "lower_byte c =
     (let n = (of_char c :: nat) in if 65 \<le> n \<and> n \<le> 90 then char_of (n + 32) else c)"

definition bytes_lower :: "bytes \<Rightarrow> bytes" where
  "bytes_lower data = map lower_byte data"

text \<open>\<open>needle in data\<close> for bytes: a search for a contiguous occurrence.\<close>

fun bytes_contains :: "bytes \<Rightarrow> bytes \<Rightarrow> bool" where
  "bytes_contains needle [] = (needle = [])"
| "bytes_contains needle (b # data) =
     (prefix needle (b # data) \<or> bytes_contains needle data)"

definition is_ascii :: "bytes \<Rightarrow> bool" where
  "is_ascii data =
     (bytes_lower (take 5 data) = ''solid'' \<and> bytes_contains ''facet'' (take 200 data))"

text \<open>\<open>struct.unpack("<I", _)\<close>: an unsigned little-endian integer.\<close>

definition unpack_uint_le :: "bytes \<Rightarrow> nat" where
  "unpack_uint_le bs = foldr (\<lambda>b acc. of_char b + 256 * acc) bs 0"

definition ascii_branch :: "pylib \<Rightarrow> bytes \<Rightarrow> real \<times> (real \<times> real \<times> real)" where
  "ascii_branch lib data =
     (let lines = decode_splitlines lib data
      in finish (ascii_loop (parse_ascii_vertices lib lines) [] init_state))"

definition binary_branch :: "pylib \<Rightarrow> bytes \<Rightarrow> real \<times> (real \<times> real \<times> real)" where
  "binary_branch lib data =
     (if length data < 84 then (0, (0, 0, 0))
      else (let num_triangles = unpack_uint_le (slice 80 84 data);
                facets_data = drop 84 data
            in finish (binary_loop num_triangles 0 (parse_binary_facets lib facets_data)
                         init_state)))"

definition compute_volume_and_bbox :: "pylib \<Rightarrow> bytes \<Rightarrow> real \<times> (real \<times> real \<times> real)" where
  "compute_volume_and_bbox lib data =
     (if is_ascii data then ascii_branch lib data else binary_branch lib data)"

definition compute_volume_ml :: "pylib \<Rightarrow> bytes \<Rightarrow> real" where
  "compute_volume_ml lib data = fst (compute_volume_and_bbox lib data)"

section \<open>Specification-level notions and example configurations\<close>

text \<open>
  What the specification asks of a step lookup \<open>lookup\<close> over a tier table \<open>tbl\<close> with
  default \<open>dflt\<close>: below every threshold the default is returned; otherwise the value
  returned is listed in the table at the highest threshold that is at most the volume; at
  a volume equal to a threshold the value is one listed at that threshold, and it is the
  value of that row when no two rows share a threshold.
\<close>

definition step_lookup_spec :: "real \<Rightarrow> (real \<times> real) list \<Rightarrow> (real \<Rightarrow> real) \<Rightarrow> bool" where
  "step_lookup_spec dflt tbl lookup \<longleftrightarrow>
     (\<forall>v. (\<forall>p\<in>set tbl. v < fst p) \<longrightarrow> lookup v = dflt) \<and>
     (\<forall>v. (\<exists>p\<in>set tbl. fst p \<le> v) \<longrightarrow>
          (Max {t \<in> fst ` set tbl. t \<le> v}, lookup v) \<in> set tbl) \<and>
     (\<forall>p\<in>set tbl. (fst p, lookup (fst p)) \<in> set tbl) \<and>
     (distinct (map fst tbl) \<longrightarrow> (\<forall>p\<in>set tbl. lookup (fst p) = snd p))"

text \<open>A small engine: one material, one type of piece, one typology, two tiers per table.\<close>

definition ex_engine :: engine where
  "ex_engine =
     \<lparr> materials = [''Resin'' \<mapsto> Material ''Resin'' (1 / 2)],
       type_pieces = [''Standard'' \<mapsto> TypePiece ''Standard'' 1],
       typologies = [''Fragile'' \<mapsto> Typology ''Fragile'' 2],
       markup_table = [(0, 1), (50, 12 / 10)],
       packaging_table = [(0, 3), (100, 5)],
       post_rate = 1 / 10,
       finish_rate = 1 / 20,
       tva_rate = 1 / 5,
       machine_hour_rate = 7,
       machine_time_per_ml = 687 / 10000,
       shipping_retrait = 0,
       shipping_delivery = 12,
       material_support_percent = [''Resin'' \<mapsto> 0],
       material_print_speed = [''Resin'' \<mapsto> 10],
       time_factor = 1 \<rparr>"


text \<open>The same engine with a print speed of zero for its material.\<close>

definition zero_speed_engine :: engine where
  "zero_speed_engine = ex_engine \<lparr> material_print_speed := [''Resin'' \<mapsto> 0] \<rparr>"

text \<open>
  The hypothesis of the monotonicity property: every scalar rate, every table factor and
  price, and every configured per-key value is non-negative.
\<close>

definition nonneg_config :: "engine \<Rightarrow> bool" where
  "nonneg_config self \<longleftrightarrow>
     0 \<le> post_rate self \<and> 0 \<le> finish_rate self \<and> 0 \<le> tva_rate self \<and>
     0 \<le> machine_hour_rate self \<and> 0 \<le> machine_time_per_ml self \<and>
     0 \<le> shipping_retrait self \<and> 0 \<le> shipping_delivery self \<and> 0 \<le> time_factor self \<and>
     (\<forall>mat\<in>ran (materials self). 0 \<le> price_per_ml_with_loss mat) \<and>
     (\<forall>tp\<in>ran (type_pieces self). 0 \<le> factor tp) \<and>
     (\<forall>ty\<in>ran (typologies self). 0 \<le> bag_price ty) \<and>
     (\<forall>s\<in>ran (material_support_percent self). 0 \<le> s) \<and>
     (\<forall>s\<in>ran (material_print_speed self). 0 \<le> s) \<and>
     (\<forall>p\<in>set (markup_table self). 0 \<le> snd p) \<and>
     (\<forall>p\<in>set (packaging_table self). 0 \<le> snd p)"

text \<open>
  The values of a tier table do not decrease from one row to the next, starting from
  the default: 1.0 for the markup, 0.0 for the packaging.
\<close>

definition markup_values_nondecreasing :: "engine \<Rightarrow> bool" where
  "markup_values_nondecreasing self \<longleftrightarrow> sorted (1 # map snd (markup_table self))"

definition packaging_values_nondecreasing :: "engine \<Rightarrow> bool" where
  "packaging_values_nondecreasing self \<longleftrightarrow> sorted (0 # map snd (packaging_table self))"

text \<open>An engine whose markup factor falls from 3 to 1 at 50 ml.\<close>

definition discount_engine :: engine where
  "discount_engine = ex_engine \<lparr> markup_table := [(0, 3), (50, 1)] \<rparr>"

text \<open>
  An engine whose packaging price falls from 3 to 1 at 50 ml, and one whose only markup
  tier, from 50 ml, has a factor below the default 1.0.
\<close>

definition packaging_discount_engine :: engine where
  "packaging_discount_engine = ex_engine \<lparr> packaging_table := [(0, 3), (50, 1)] \<rparr>"

definition low_markup_engine :: engine where
  "low_markup_engine = ex_engine \<lparr> markup_table := [(50, 1 / 2)] \<rparr>"

text \<open>
  Reversing the winding of a facet swaps two of its vertices; \<open>vertices_of_facets\<close> is
  the order in which the text format lists the vertices of a list of facets;
  \<open>accumulate\<close> is the sum of the contributions of a list of facets as the loops form it,
  from 0.0 and facet by facet.
\<close>

datatype transposition = Swap_12 | Swap_13 | Swap_23

fun swap_vertices :: "transposition \<Rightarrow> facet \<Rightarrow> facet" where
  "swap_vertices Swap_12 (v1, v2, v3) = (v2, v1, v3)"
| "swap_vertices Swap_13 (v1, v2, v3) = (v3, v2, v1)"
| "swap_vertices Swap_23 (v1, v2, v3) = (v1, v3, v2)"

definition facet_volume :: "facet \<Rightarrow> real" where
  "facet_volume f = (case f of (v1, v2, v3) \<Rightarrow> signed_tetrahedron_volume v1 v2 v3)"

definition vertices_of_facets :: "facet list \<Rightarrow> vertex list" where
  "vertices_of_facets fs = concat (map (\<lambda>(v1, v2, v3). [v1, v2, v3]) fs)"

text \<open>The contribution of a facet in exact arithmetic, \<open>dot(v1, cross(v2, v3)) / 6\<close>.\<close>

definition exact_facet_volume :: "facet \<Rightarrow> real" where
  "exact_facet_volume f =
     (case f of ((a0, a1, a2), (b0, b1, b2), (c0, c1, c2)) \<Rightarrow>
        (a0 * (b1 * c2 - b2 * c1) + a1 * (b2 * c0 - b0 * c2) + a2 * (b0 * c1 - b1 * c0)) / 6)"

definition accumulate :: "facet list \<Rightarrow> real" where
  "accumulate fs = foldl fadd 0 (map facet_volume fs)"

text \<open>
  A facet whose coordinates are exact in single precision and whose contribution is
  not: the coordinates are near \<open>2 ^ 24\<close>, so that sums of products lose their last bits.
\<close>

definition skew_facet :: facet where
  "skew_facet = ((16777216, 16777218, 1), (16777214, 16777215, 0), (3, 16777216, 16777215))"

text \<open>
  The two conditions of the format detection, as the specification words them: the
  payload begins with the marker (of lower-case letters), each byte being the letter of
  the marker or its upper-case form; the token occurs at some offset, entirely within
  the first \<open>window\<close> bytes.
\<close>

definition begins_with_ignoring_case :: "bytes \<Rightarrow> bytes \<Rightarrow> bool" where
  "begins_with_ignoring_case marker data \<longleftrightarrow>
     (\<exists>p rest. data = p @ rest \<and>
        list_all2 (\<lambda>a b. a = b \<or> (of_char a :: nat) + 32 = of_char b) p marker)"

definition occurs_within :: "bytes \<Rightarrow> nat \<Rightarrow> bytes \<Rightarrow> bool" where
  "occurs_within token window data \<longleftrightarrow>
     (\<exists>i. i + length token \<le> min window (length data) \<and>
          take (length token) (drop i data) = token)"

text \<open>A library stub for the examples: no line decodes to a vertex, every float is 0.\<close>

definition stub_lib :: pylib where
  "stub_lib = \<lparr> decode_splitlines = (\<lambda>data. []), str_strip = (\<lambda>s. s), str_lower = (\<lambda>s. s),
                 str_split = (\<lambda>s. []), float_of_str = (\<lambda>s. None), unpack_float = (\<lambda>bs. 0) \<rparr>"

text \<open>
  A second engine: 20 percent of supports, a type factor of 1.5, a print speed of 20
  tenths of mm/s and a time factor of 2.
\<close>

definition tuned_engine :: engine where
  "tuned_engine =
     \<lparr> materials = [''Resin'' \<mapsto> Material ''Resin'' (1 / 2)],
       type_pieces = [''Standard'' \<mapsto> TypePiece ''Standard'' (3 / 2)],
       typologies = [''Fragile'' \<mapsto> Typology ''Fragile'' 2],
       markup_table = [(0, 1), (50, 12 / 10)],
       packaging_table = [(0, 3), (100, 5)],
       post_rate = 1 / 10,
       finish_rate = 1 / 20,
       tva_rate = 1 / 5,
       machine_hour_rate = 7,
       machine_time_per_ml = 1 / 10,
       shipping_retrait = 0,
       shipping_delivery = 12,
       material_support_percent = [''Resin'' \<mapsto> 20],
       material_print_speed = [''Resin'' \<mapsto> 20],
       time_factor = 2 \<rparr>"

section \<open>Tier lookups\<close>

lemma tier_scan_takeWhile:
  "tier_scan d tbl v = (case takeWhile (\<lambda>p. fst p \<le> v) tbl of [] \<Rightarrow> d | x # xs \<Rightarrow> snd (last (x # xs)))"
proof (induction tbl arbitrary: d)
  case Nil
  then show ?case by simp
next
  case (Cons p tbl)
  obtain t f where p: "p = (t, f)" by (cases p)
  show ?case
  proof (cases "t \<le> v")
    case True
    then show ?thesis using Cons.IH [of f] p
      by (simp split: list.splits)
  next
    case False
    then show ?thesis using p by simp
  qed
qed

lemma sorted_takeWhile_filter:
  "sorted (map fst tbl) \<Longrightarrow> takeWhile (\<lambda>p. fst p \<le> (v::real)) tbl = filter (\<lambda>p. fst p \<le> v) tbl"
proof (induction tbl)
  case Nil
  then show ?case by simp
next
  case (Cons p tbl)
  show ?case
  proof (cases "fst p \<le> v")
    case True
    then show ?thesis using Cons by simp
  next
    case False
    with Cons.prems have "\<forall>q\<in>set tbl. \<not> fst q \<le> v" by auto
    then have "filter (\<lambda>p. fst p \<le> v) tbl = []" by (simp add: filter_empty_conv)
    with False show ?thesis by simp
  qed
qed

lemma sorted_last_greatest:
  "sorted (map fst xs) \<Longrightarrow> (q::real \<times> real) \<in> set xs \<Longrightarrow> fst q \<le> fst (last xs)"
proof (induction xs)
  case Nil
  then show ?case by simp
next
  case (Cons x xs)
  show ?case
  proof (cases "xs = []")
    case True
    with Cons.prems show ?thesis by simp
  next
    case False
    then have l: "last xs \<in> set xs" by simp
    from Cons.prems have "fst x \<le> fst (last xs)" using l by auto
    moreover have "q \<in> set xs \<Longrightarrow> fst q \<le> fst (last xs)"
      using Cons.IH Cons.prems by simp
    ultimately show ?thesis using Cons.prems(2) False by auto
  qed
qed

lemma tier_scan_sorted_hit:
  assumes srt: "sorted (map fst tbl)" and hit: "\<exists>p\<in>set tbl. fst p \<le> v"
  shows "(Max {t \<in> fst ` set tbl. t \<le> v}, tier_scan d tbl v) \<in> set tbl"
proof -
  let ?xs = "filter (\<lambda>p. fst p \<le> v) tbl"
  from hit have ne: "?xs \<noteq> []" by (simp add: filter_empty_conv)
  then obtain y ys where xs: "?xs = y # ys" by (cases ?xs) auto
  have scan: "tier_scan d tbl v = snd (last ?xs)"
    using xs by (simp add: tier_scan_takeWhile sorted_takeWhile_filter [OF srt])
  have mem: "last ?xs \<in> set ?xs" using ne by (rule last_in_set)
  then have mem': "last ?xs \<in> set tbl" by simp
  have "sorted (map fst ?xs)" using srt by (simp add: sorted_filter)
  then have top: "\<And>q. q \<in> set ?xs \<Longrightarrow> fst q \<le> fst (last ?xs)"
    by (rule sorted_last_greatest)
  have set_eq: "{t \<in> fst ` set tbl. t \<le> v} = fst ` set ?xs" by auto
  have "Max (fst ` set ?xs) = fst (last ?xs)"
  proof (rule Max_eqI)
    show "finite (fst ` set ?xs)" by simp
    show "\<And>t. t \<in> fst ` set ?xs \<Longrightarrow> t \<le> fst (last ?xs)" using top by blast
    show "fst (last ?xs) \<in> fst ` set ?xs" using mem by (rule imageI)
  qed
  then have "(Max {t \<in> fst ` set tbl. t \<le> v}, tier_scan d tbl v) = last ?xs"
    using set_eq scan by simp
  then show ?thesis using mem' by simp
qed

lemma tier_scan_below: "\<forall>p\<in>set tbl. v < fst p \<Longrightarrow> tier_scan d tbl v = d"
  by (cases tbl) auto

lemma Max_at_threshold:
  assumes "p \<in> set tbl"
  shows "Max {t \<in> fst ` set tbl. t \<le> fst p} = fst (p :: real \<times> real)"
proof (rule Max_eqI)
  show "finite {t \<in> fst ` set tbl. t \<le> fst p}" by simp
  show "\<And>y. y \<in> {t \<in> fst ` set tbl. t \<le> fst p} \<Longrightarrow> y \<le> fst p" by simp
  show "fst p \<in> {t \<in> fst ` set tbl. t \<le> fst p}" using assms by simp
qed

lemma tier_scan_at_threshold:
  assumes srt: "sorted (map fst tbl)" and p: "p \<in> set tbl"
  shows "(fst p, tier_scan d tbl (fst p)) \<in> set tbl"
proof -
  have "\<exists>q\<in>set tbl. fst q \<le> fst p" using p by auto
  from tier_scan_sorted_hit [OF srt this, of d] show ?thesis
    by (simp only: Max_at_threshold [OF p])
qed

lemma tier_scan_at_threshold_distinct:
  assumes srt: "sorted (map fst tbl)" and p: "p \<in> set tbl" and d: "distinct (map fst tbl)"
  shows "tier_scan d0 tbl (fst p) = snd p"
proof -
  have a: "(fst p, tier_scan d0 tbl (fst p)) \<in> set tbl" using srt p by (rule tier_scan_at_threshold)
  have b: "(fst p, snd p) \<in> set tbl" using p by simp
  show ?thesis by (rule eq_key_imp_eq_value [OF d a b])
qed

lemma tier_scan_spec:
  assumes srt: "sorted (map fst tbl)"
  shows "step_lookup_spec d tbl (tier_scan d tbl)"
proof -
  have "\<forall>v. (\<forall>p\<in>set tbl. v < fst p) \<longrightarrow> tier_scan d tbl v = d"
    by (simp add: tier_scan_below)
  moreover have "\<forall>v. (\<exists>p\<in>set tbl. fst p \<le> v) \<longrightarrow>
      (Max {t \<in> fst ` set tbl. t \<le> v}, tier_scan d tbl v) \<in> set tbl"
    using tier_scan_sorted_hit [OF srt] by blast
  moreover have "\<forall>p\<in>set tbl. (fst p, tier_scan d tbl (fst p)) \<in> set tbl"
    using tier_scan_at_threshold [OF srt] by blast
  moreover have "distinct (map fst tbl) \<longrightarrow> (\<forall>p\<in>set tbl. tier_scan d tbl (fst p) = snd p)"
    using tier_scan_at_threshold_distinct [OF srt] by blast
  ultimately show ?thesis unfolding step_lookup_spec_def by blast
qed

text \<open>
  C3. When the markup table and the packaging table are sorted ascending by threshold,
  \<open>_get_markup_factor\<close> (default 1.0) and \<open>_get_packaging_cost\<close> (default 0.0) return the
  value of the highest threshold that is at most the volume, the default below every
  threshold, and at a volume equal to a threshold the value of the tier at that threshold.
\<close>

theorem step_lookup_highest_threshold:
  assumes "sorted (map fst (markup_table self))" and "sorted (map fst (packaging_table self))"
  shows "step_lookup_spec 1 (markup_table self) (get_markup_factor self) \<and>
         step_lookup_spec 0 (packaging_table self) (get_packaging_cost self)"
proof -
  have "get_markup_factor self = tier_scan 1 (markup_table self)"
    by (rule ext) (simp add: get_markup_factor_def)
  moreover have "get_packaging_cost self = tier_scan 0 (packaging_table self)"
    by (rule ext) (simp add: get_packaging_cost_def)
  ultimately show ?thesis using assms by (simp add: tier_scan_spec)
qed

text \<open>
  The scenario of the specification: with the markup table \<open>[(0, 1.0), (50, 1.2)]\<close> a
  volume of 20 gives the factor 1.0 and a volume of 50 gives 1.2.
\<close>

theorem step_lookup_highest_threshold_witness:
  "sorted (map fst (markup_table ex_engine)) \<and> sorted (map fst (packaging_table ex_engine)) \<and>
   step_lookup_spec 1 (markup_table ex_engine) (get_markup_factor ex_engine) \<and>
   step_lookup_spec 0 (packaging_table ex_engine) (get_packaging_cost ex_engine) \<and>
   get_markup_factor ex_engine 20 = 1 \<and> get_markup_factor ex_engine 50 = 12 / 10"
proof -
  have h1: "sorted (map fst (markup_table ex_engine))" by (simp add: ex_engine_def)
  have h2: "sorted (map fst (packaging_table ex_engine))" by (simp add: ex_engine_def)
  note c = step_lookup_highest_threshold [OF h1 h2]
  have v: "get_markup_factor ex_engine 20 = 1 \<and> get_markup_factor ex_engine 50 = 12 / 10"
    by (simp add: get_markup_factor_def ex_engine_def)
  show ?thesis
    by (rule conjI [OF h1 conjI [OF h2 conjI [OF conjunct1 [OF c] conjI [OF conjunct2 [OF c] v]]]])
qed

section \<open>The quote pipeline\<close>

lemma float_of_int_Inr: "float_of_int q = Inr qf \<Longrightarrow> qf = real_of_int q"
  by (simp add: float_of_int_def split: if_splits)

lemma compute_quote_unfold:
  "compute_quote self v m tp ty q sm ap ld =
     (case materials self m of
        None \<Rightarrow> Inl (ValueError_Unknown_material m)
      | Some mat \<Rightarrow>
          (case float_of_int (clamp_quantity q) of
             Inl e \<Rightarrow> Inl e
           | Inr qf \<Rightarrow>
               (case machine_time_hours self m (volume_with_supports self m (eff_volume_ml v qf))
                       (type_factor_of self tp) ld of
                  Inl e \<Rightarrow> Inl e
                | Inr hours \<Rightarrow>
                    Inr (price_breakdown self qf (eff_volume_ml v qf)
                           (volume_with_supports self m (eff_volume_ml v qf))
                           (volume_with_supports self m (eff_volume_ml v qf)
                              * price_per_ml_with_loss mat * type_factor_of self tp)
                           hours sm ap (bag_price_of self ty)))))"
  by (simp add: compute_quote_def Let_def split: option.splits sum.splits)

lemma compute_quote_InrD:
  assumes "compute_quote self v m tp ty q sm ap ld = Inr b"
  shows "\<exists>mat hours. materials self m = Some mat \<and>
           float_of_int (clamp_quantity q) = Inr (real_of_int (clamp_quantity q)) \<and>
           machine_time_hours self m
             (volume_with_supports self m (eff_volume_ml v (real_of_int (clamp_quantity q))))
             (type_factor_of self tp) ld = Inr hours \<and>
           b = price_breakdown self (real_of_int (clamp_quantity q))
                 (eff_volume_ml v (real_of_int (clamp_quantity q)))
                 (volume_with_supports self m (eff_volume_ml v (real_of_int (clamp_quantity q))))
                 (volume_with_supports self m (eff_volume_ml v (real_of_int (clamp_quantity q)))
                    * price_per_ml_with_loss mat * type_factor_of self tp)
                 hours sm ap (bag_price_of self ty)"
proof -
  from assms obtain mat where mat: "materials self m = Some mat"
    by (auto simp: compute_quote_unfold split: option.splits)
  from assms mat obtain qf where qf: "float_of_int (clamp_quantity q) = Inr qf"
    by (auto simp: compute_quote_unfold split: sum.splits)
  then have qf_eq: "qf = real_of_int (clamp_quantity q)" by (rule float_of_int_Inr)
  from assms mat qf obtain hours where
    h: "machine_time_hours self m (volume_with_supports self m (eff_volume_ml v qf))
          (type_factor_of self tp) ld = Inr hours"
    by (auto simp: compute_quote_unfold split: sum.splits)
  from assms mat qf h have
    "b = price_breakdown self qf (eff_volume_ml v qf)
           (volume_with_supports self m (eff_volume_ml v qf))
           (volume_with_supports self m (eff_volume_ml v qf)
              * price_per_ml_with_loss mat * type_factor_of self tp)
           hours sm ap (bag_price_of self ty)"
    by (simp add: compute_quote_unfold)
  with mat qf h qf_eq show ?thesis by blast
qed

lemma price_breakdown_fields:
  "material_cost (price_breakdown self q eff vws mc h sm ap bp) = mc"
  "machine_cost (price_breakdown self q eff vws mc h sm ap bp) = h * machine_hour_rate self"
  "base_cost (price_breakdown self q eff vws mc h sm ap bp) = mc + h * machine_hour_rate self"
  "post_cost (price_breakdown self q eff vws mc h sm ap bp) =
     (mc + h * machine_hour_rate self) * post_rate self"
  "finish_cost (price_breakdown self q eff vws mc h sm ap bp) =
     (mc + h * machine_hour_rate self) * finish_rate self"
  "painting_cost (price_breakdown self q eff vws mc h sm ap bp) = 0"
  "total_cost_before_markup (price_breakdown self q eff vws mc h sm ap bp) =
     (mc + h * machine_hour_rate self) + (mc + h * machine_hour_rate self) * post_rate self
       + (mc + h * machine_hour_rate self) * finish_rate self"
  "markup_factor (price_breakdown self q eff vws mc h sm ap bp) = get_markup_factor self eff"
  "packaging_cost (price_breakdown self q eff vws mc h sm ap bp) = get_packaging_cost self eff"
  "bag_cost (price_breakdown self q eff vws mc h sm ap bp) = bp * q"
  "shipping_cost (price_breakdown self q eff vws mc h sm ap bp) =
     (if sm = ''retrait'' then shipping_retrait self else shipping_delivery self)"
  "volume_with_supports_ml (price_breakdown self q eff vws mc h sm ap bp) = vws"
  "print_time_minutes (price_breakdown self q eff vws mc h sm ap bp) = h * 60"
  by (simp_all add: price_breakdown_def Let_def)

lemma price_breakdown_totals:
  "price_ht_plate (price_breakdown self q eff vws mc h sm ap bp) =
     total_cost_before_markup (price_breakdown self q eff vws mc h sm ap bp)
       * get_markup_factor self eff"
  "total_ht (price_breakdown self q eff vws mc h sm ap bp) =
     price_ht_plate (price_breakdown self q eff vws mc h sm ap bp)
       + get_packaging_cost self eff + bp * q
       + (if sm = ''retrait'' then shipping_retrait self else shipping_delivery self)"
  "vat (price_breakdown self q eff vws mc h sm ap bp) =
     total_ht (price_breakdown self q eff vws mc h sm ap bp) * tva_rate self"
  "total_ttc (price_breakdown self q eff vws mc h sm ap bp) =
     total_ht (price_breakdown self q eff vws mc h sm ap bp)
       + vat (price_breakdown self q eff vws mc h sm ap bp)"
  by (simp_all add: price_breakdown_def Let_def)

text \<open>The lookups with a default, in terms of the configuration.\<close>

lemma config_lookups:
  "speed_mm_s self m = (case material_print_speed self m of None \<Rightarrow> 1 | Some st \<Rightarrow> st / 10)"
  "type_factor_of self tp = (case type_pieces self tp of None \<Rightarrow> 1 | Some t \<Rightarrow> factor t)"
  "support_percent_of self m = (case material_support_percent self m of None \<Rightarrow> 0 | Some s \<Rightarrow> s)"
  "bag_price_of self ty = (case typologies self ty of None \<Rightarrow> 0 | Some t \<Rightarrow> bag_price t)"
  by (simp_all add: speed_mm_s_def type_factor_of_def support_percent_of_def bag_price_of_def
      split: option.splits)

lemma clamp_quantity_max: "clamp_quantity q = max 1 q"
  by (simp add: clamp_quantity_def max_def)

lemma ex_engine_resin: "materials ex_engine ''Resin'' = Some (Material ''Resin'' (1 / 2))"
  by (simp add: ex_engine_def)

lemma small_quantity_converts:
  "float_of_int (clamp_quantity 1) = Inr 1"
  "float_of_int (clamp_quantity 2) = Inr 2"
  by (simp_all add: float_of_int_def clamp_quantity_def)

lemma tuned_engine_resin: "materials tuned_engine ''Resin'' = Some (Material ''Resin'' (1 / 2))"
  by (simp add: tuned_engine_def)

text \<open>
  C1 (amended). For a known material and a quantity that converts to a float: when
  \<open>largest_dimension_mm\<close> is given and the print speed configured for the material is not
  zero, the quote is returned and its machine time in hours is
  \<open>(largest_dimension_mm * time_factor) / print_speed / 3600\<close>, where \<open>print_speed\<close> is
  the configured value, which is in tenths of mm/s, divided by 10; when it is absent the
  quote is returned and the machine time in hours is
  \<open>volume_with_supports * machine_time_per_ml * type_factor\<close>, with the type factor of
  the configuration (1.0 for an unknown key). The breakdown shows the hours as
  \<open>print_time_minutes\<close> (hours times 60) and \<open>machine_cost\<close> (hours times the hourly
  rate).
\<close>

theorem machine_time_formula:
  assumes mat: "materials self m = Some mat"
    and qf: "float_of_int (clamp_quantity q) = Inr qf"
  shows "(\<forall>speed_tenth. material_print_speed self m = Some speed_tenth \<and> speed_tenth \<noteq> 0 \<longrightarrow>
            (\<exists>b. compute_quote self v m tp ty q sm ap (Some d) = Inr b \<and>
                 print_time_minutes b
                   = (d * time_factor self) / (speed_tenth / 10) / 3600 * 60 \<and>
                 machine_cost b
                   = (d * time_factor self) / (speed_tenth / 10) / 3600 * machine_hour_rate self)) \<and>
         (\<exists>b. compute_quote self v m tp ty q sm ap None = Inr b \<and>
              volume_with_supports_ml b
                = v * real_of_int (max 1 q)
                    * (1 + (case material_support_percent self m of None \<Rightarrow> 0 | Some s \<Rightarrow> s) / 100) \<and>
              print_time_minutes b
                = volume_with_supports_ml b * machine_time_per_ml self
                    * (case type_pieces self tp of None \<Rightarrow> 1 | Some t \<Rightarrow> factor t) * 60 \<and>
              machine_cost b
                = volume_with_supports_ml b * machine_time_per_ml self
                    * (case type_pieces self tp of None \<Rightarrow> 1 | Some t \<Rightarrow> factor t)
                    * machine_hour_rate self)"
proof (intro conjI allI impI)
  fix speed_tenth
  assume "material_print_speed self m = Some speed_tenth \<and> speed_tenth \<noteq> 0"
  then have sp: "speed_mm_s self m = speed_tenth / 10" and nz: "speed_mm_s self m \<noteq> 0"
    by (simp_all add: speed_mm_s_def)
  show "\<exists>b. compute_quote self v m tp ty q sm ap (Some d) = Inr b \<and>
                 print_time_minutes b
                   = (d * time_factor self) / (speed_tenth / 10) / 3600 * 60 \<and>
                 machine_cost b
                   = (d * time_factor self) / (speed_tenth / 10) / 3600 * machine_hour_rate self"
    using mat qf nz unfolding sp [symmetric]
    by (simp add: compute_quote_unfold machine_time_hours_def price_breakdown_fields Let_def)
next
  have q: "qf = real_of_int (max 1 q)"
    using float_of_int_Inr [OF qf] by (simp add: clamp_quantity_max)
  show "\<exists>b. compute_quote self v m tp ty q sm ap None = Inr b \<and>
              volume_with_supports_ml b
                = v * real_of_int (max 1 q)
                    * (1 + (case material_support_percent self m of None \<Rightarrow> 0 | Some s \<Rightarrow> s) / 100) \<and>
              print_time_minutes b
                = volume_with_supports_ml b * machine_time_per_ml self
                    * (case type_pieces self tp of None \<Rightarrow> 1 | Some t \<Rightarrow> factor t) * 60 \<and>
              machine_cost b
                = volume_with_supports_ml b * machine_time_per_ml self
                    * (case type_pieces self tp of None \<Rightarrow> 1 | Some t \<Rightarrow> factor t)
                    * machine_hour_rate self"
    using mat qf unfolding config_lookups(2,3) [symmetric]
    by (simp add: compute_quote_unfold machine_time_hours_def price_breakdown_fields Let_def
        volume_with_supports_def eff_volume_ml_def q)
qed

text \<open>
  On \<open>tuned_engine\<close> (20 tenths of mm/s, time factor 2) a largest dimension of 3600 mm
  gives one hour; without it, 24 ml with supports give 3.6 hours.
\<close>

theorem machine_time_formula_witness:
  "materials tuned_engine ''Resin'' = Some (Material ''Resin'' (1 / 2)) \<and>
   float_of_int (clamp_quantity 2) = Inr 2 \<and>
   material_print_speed tuned_engine ''Resin'' = Some 20 \<and> (20::real) \<noteq> 0 \<and>
   (\<exists>b. compute_quote tuned_engine 10 ''Resin'' ''Standard'' ''Fragile'' 2 ''retrait'' False (Some 3600)
          = Inr b \<and> print_time_minutes b = 60 \<and> machine_cost b = 7) \<and>
   (\<exists>b. compute_quote tuned_engine 10 ''Resin'' ''Standard'' ''Fragile'' 2 ''retrait'' False None
          = Inr b \<and> volume_with_supports_ml b = 24 \<and> print_time_minutes b = 216 \<and>
          machine_cost b = 126 / 5)"
proof -
  have h2: "float_of_int (clamp_quantity 2) = Inr 2" by (rule small_quantity_converts)
  have h3: "material_print_speed tuned_engine ''Resin'' = Some 20 \<and> (20::real) \<noteq> 0"
    by (simp add: tuned_engine_def)
  note t = machine_time_formula [OF tuned_engine_resin h2, where tp = "''Standard''" and d = 3600
      and v = 10 and ty = "''Fragile''" and sm = "''retrait''" and ap = False]
  from t h3 obtain b where
    b: "compute_quote tuned_engine 10 ''Resin'' ''Standard'' ''Fragile'' 2 ''retrait'' False (Some 3600)
          = Inr b"
    and "print_time_minutes b = (3600 * time_factor tuned_engine) / (20 / 10) / 3600 * 60"
    and "machine_cost b
           = (3600 * time_factor tuned_engine) / (20 / 10) / 3600 * machine_hour_rate tuned_engine"
    by blast
  then have c1: "\<exists>b. compute_quote tuned_engine 10 ''Resin'' ''Standard'' ''Fragile'' 2 ''retrait''
                       False (Some 3600) = Inr b \<and> print_time_minutes b = 60 \<and> machine_cost b = 7"
    by (simp add: tuned_engine_def)
  from t obtain b' where
    b': "compute_quote tuned_engine 10 ''Resin'' ''Standard'' ''Fragile'' 2 ''retrait'' False None
          = Inr b'"
    and v: "volume_with_supports_ml b'
              = 10 * real_of_int (max 1 2)
                  * (1 + (case material_support_percent tuned_engine ''Resin'' of
                            None \<Rightarrow> 0 | Some s \<Rightarrow> s) / 100)"
    and p: "print_time_minutes b'
              = volume_with_supports_ml b' * machine_time_per_ml tuned_engine
                  * (case type_pieces tuned_engine ''Standard'' of None \<Rightarrow> 1 | Some t \<Rightarrow> factor t)
                  * 60"
    and c: "machine_cost b'
              = volume_with_supports_ml b' * machine_time_per_ml tuned_engine
                  * (case type_pieces tuned_engine ''Standard'' of None \<Rightarrow> 1 | Some t \<Rightarrow> factor t)
                  * machine_hour_rate tuned_engine"
    by blast
  from v have v': "volume_with_supports_ml b' = 24" by (simp add: tuned_engine_def)
  from p c have "print_time_minutes b' = 216 \<and> machine_cost b' = 126 / 5"
    unfolding v' by (simp add: tuned_engine_def)
  with b' v' have c2: "\<exists>b. compute_quote tuned_engine 10 ''Resin'' ''Standard'' ''Fragile'' 2
                        ''retrait'' False None = Inr b \<and> volume_with_supports_ml b = 24 \<and>
                        print_time_minutes b = 216 \<and> machine_cost b = 126 / 5"
    by blast
  from tuned_engine_resin h2 h3 c1 c2 show ?thesis by blast
qed

text \<open>
  C1 as stated fails: with a configured print speed of zero the dimension path raises
  ZeroDivisionError.
\<close>

theorem machine_time_zero_speed_fails:
  "compute_quote zero_speed_engine 10 ''Resin'' ''Standard'' ''Fragile'' 1 ''retrait'' False (Some 100)
     = Inl ZeroDivisionError"
  by (simp add: compute_quote_unfold machine_time_hours_def speed_mm_s_def zero_speed_engine_def
      ex_engine_def float_of_int_def clamp_quantity_def)

text \<open>
  The configured speed is in tenths of mm/s: with the configured value 10 and a time
  factor of 1, a largest dimension of 3600 mm takes 60 minutes, where dividing by the
  configured value itself would give 6 minutes.
\<close>

lemma configured_speed_is_in_tenths:
  "material_print_speed ex_engine ''Resin'' = Some 10 \<and>
   map_sum id print_time_minutes
     (compute_quote ex_engine 10 ''Resin'' ''Standard'' ''Fragile'' 1 ''retrait'' False (Some 3600))
     = Inr 60 \<and>
   (3600 * time_factor ex_engine) / 10 / 3600 * 60 = (6::real)"
  by (simp add: compute_quote_unfold machine_time_hours_def speed_mm_s_def price_breakdown_fields
      ex_engine_def float_of_int_def clamp_quantity_def)

text \<open>When no speed is configured for the material, the speed is 1.0 mm/s.\<close>

lemma unconfigured_speed_is_one_mm_s:
  assumes "materials self m = Some mat" and "float_of_int (clamp_quantity q) = Inr qf"
    and "material_print_speed self m = None"
  shows "\<exists>b. compute_quote self v m tp ty q sm ap (Some d) = Inr b \<and>
             print_time_minutes b = (d * time_factor self) / 1 / 3600 * 60"
  using assms
  by (simp add: compute_quote_unfold machine_time_hours_def speed_mm_s_def price_breakdown_fields
      Let_def)

lemma type_factor_of_update:
  "type_pieces self tp = None \<Longrightarrow>
   type_factor_of (self \<lparr> type_pieces := (type_pieces self)(tp \<mapsto> TypePiece tp 1) \<rparr>) tp
     = type_factor_of self tp"
  by (simp add: type_factor_of_def)

lemma machine_time_hours_cong:
  assumes "speed_mm_s self' m = speed_mm_s self m" and "time_factor self' = time_factor self"
    and "machine_time_per_ml self' = machine_time_per_ml self"
  shows "machine_time_hours self' m w f ld = machine_time_hours self m w f ld"
  using assms by (cases ld) (simp_all add: machine_time_hours_def)

lemma type_pieces_update_irrelevant:
  "volume_with_supports (self \<lparr> type_pieces := tps \<rparr>) m e = volume_with_supports self m e"
  "machine_time_hours (self \<lparr> type_pieces := tps \<rparr>) m w f ld = machine_time_hours self m w f ld"
  "bag_price_of (self \<lparr> type_pieces := tps \<rparr>) ty = bag_price_of self ty"
  "price_breakdown (self \<lparr> type_pieces := tps \<rparr>) q e w mc h sm ap bp
     = price_breakdown self q e w mc h sm ap bp"
proof -
  show "volume_with_supports (self \<lparr> type_pieces := tps \<rparr>) m e = volume_with_supports self m e"
    by (simp add: volume_with_supports_def support_percent_of_def)
  show "machine_time_hours (self \<lparr> type_pieces := tps \<rparr>) m w f ld
          = machine_time_hours self m w f ld"
    by (rule machine_time_hours_cong) (simp_all add: speed_mm_s_def)
  show "bag_price_of (self \<lparr> type_pieces := tps \<rparr>) ty = bag_price_of self ty"
    by (simp add: bag_price_of_def)
  show "price_breakdown (self \<lparr> type_pieces := tps \<rparr>) q e w mc h sm ap bp
     = price_breakdown self q e w mc h sm ap bp"
    by (simp add: price_breakdown_def get_markup_factor_def get_packaging_cost_def Let_def)
qed

lemma typologies_update_irrelevant:
  "volume_with_supports (self \<lparr> typologies := tys \<rparr>) m e = volume_with_supports self m e"
  "machine_time_hours (self \<lparr> typologies := tys \<rparr>) m w f ld = machine_time_hours self m w f ld"
  "type_factor_of (self \<lparr> typologies := tys \<rparr>) tp = type_factor_of self tp"
  "price_breakdown (self \<lparr> typologies := tys \<rparr>) q e w mc h sm ap bp
     = price_breakdown self q e w mc h sm ap bp"
proof -
  show "volume_with_supports (self \<lparr> typologies := tys \<rparr>) m e = volume_with_supports self m e"
    by (simp add: volume_with_supports_def support_percent_of_def)
  show "machine_time_hours (self \<lparr> typologies := tys \<rparr>) m w f ld
          = machine_time_hours self m w f ld"
    by (rule machine_time_hours_cong) (simp_all add: speed_mm_s_def)
  show "type_factor_of (self \<lparr> typologies := tys \<rparr>) tp = type_factor_of self tp"
    by (simp add: type_factor_of_def)
  show "price_breakdown (self \<lparr> typologies := tys \<rparr>) q e w mc h sm ap bp
     = price_breakdown self q e w mc h sm ap bp"
    by (simp add: price_breakdown_def get_markup_factor_def get_packaging_cost_def Let_def)
qed

lemma compute_quote_type_pieces_update:
  assumes "type_factor_of (self \<lparr> type_pieces := tps \<rparr>) tp = type_factor_of self tp"
  shows "compute_quote (self \<lparr> type_pieces := tps \<rparr>) v m tp ty q sm ap ld
           = compute_quote self v m tp ty q sm ap ld"
  using assms
  by (simp add: compute_quote_unfold type_pieces_update_irrelevant
      split: option.splits sum.splits)

lemma compute_quote_typologies_update:
  assumes "bag_price_of (self \<lparr> typologies := tys \<rparr>) ty = bag_price_of self ty"
  shows "compute_quote (self \<lparr> typologies := tys \<rparr>) v m tp ty q sm ap ld
           = compute_quote self v m tp ty q sm ap ld"
  using assms
  by (simp add: compute_quote_unfold typologies_update_irrelevant
      split: option.splits sum.splits)

lemma compute_quote_succeeds:
  assumes "materials self m = Some mat" and "float_of_int (clamp_quantity q) = Inr qf"
    and "ld = None \<or> speed_mm_s self m \<noteq> 0"
  shows "\<exists>b. compute_quote self v m tp ty q sm ap ld = Inr b"
  using assms
  by (cases ld) (auto simp: compute_quote_unfold machine_time_hours_def Let_def)

lemma float_of_int_error: "float_of_int q = Inl e \<Longrightarrow> e = OverflowError"
  by (simp add: float_of_int_def split: if_splits)

lemma machine_time_hours_error:
  "machine_time_hours self m w f ld = Inl e \<Longrightarrow> e = ZeroDivisionError"
  by (cases ld) (simp_all add: machine_time_hours_def Let_def split: if_splits)

lemma compute_quote_known_not_ValueError:
  assumes "materials self m = Some mat"
  shows "compute_quote self v m tp ty q sm ap ld \<noteq> Inl (ValueError_Unknown_material n)"
proof (cases "float_of_int (clamp_quantity q)")
  case (Inl e)
  then have "e = OverflowError" by (rule float_of_int_error)
  with Inl assms show ?thesis by (simp add: compute_quote_unfold)
next
  case (Inr qf)
  show ?thesis
  proof (cases "machine_time_hours self m (volume_with_supports self m (eff_volume_ml v qf))
                  (type_factor_of self tp) ld")
    case (Inl e)
    then have "e = ZeroDivisionError" by (rule machine_time_hours_error)
    with Inl Inr assms show ?thesis by (simp add: compute_quote_unfold)
  next
    case (Inr hours)
    with \<open>float_of_int (clamp_quantity q) = Inr qf\<close> assms show ?thesis
      by (simp add: compute_quote_unfold)
  qed
qed

text \<open>
  C4 (amended). \<open>compute_quote\<close> raises the unknown-material error if and only if the
  material key is absent from \<open>materials\<close>. When the key is present, the quantity converts
  to a float, and either no largest dimension is given or the material's speed is not
  zero, a breakdown is returned. A type-piece key that is not configured is priced as if
  it were configured with the factor 1.0, and a typology key that is not configured as if
  it were configured with the bag price 0.0.
\<close>

theorem unknown_material_iff:
  "((\<exists>n. compute_quote self v m tp ty q sm ap ld = Inl (ValueError_Unknown_material n))
      \<longleftrightarrow> materials self m = None) \<and>
   (materials self m \<noteq> None \<and> (\<exists>qf. float_of_int (clamp_quantity q) = Inr qf) \<and>
      (ld = None \<or> speed_mm_s self m \<noteq> 0)
      \<longrightarrow> (\<exists>b. compute_quote self v m tp ty q sm ap ld = Inr b)) \<and>
   (type_pieces self tp = None \<longrightarrow>
      type_factor_of self tp = 1 \<and>
      compute_quote self v m tp ty q sm ap ld =
        compute_quote (self \<lparr> type_pieces := (type_pieces self)(tp \<mapsto> TypePiece tp 1) \<rparr>)
          v m tp ty q sm ap ld) \<and>
   (typologies self ty = None \<longrightarrow>
      bag_price_of self ty = 0 \<and>
      compute_quote self v m tp ty q sm ap ld =
        compute_quote (self \<lparr> typologies := (typologies self)(ty \<mapsto> Typology ty 0) \<rparr>)
          v m tp ty q sm ap ld)"
proof (intro conjI impI)
  show "(\<exists>n. compute_quote self v m tp ty q sm ap ld = Inl (ValueError_Unknown_material n))
      \<longleftrightarrow> materials self m = None"
  proof
    assume "\<exists>n. compute_quote self v m tp ty q sm ap ld = Inl (ValueError_Unknown_material n)"
    then obtain n where n: "compute_quote self v m tp ty q sm ap ld = Inl (ValueError_Unknown_material n)"
      by blast
    show "materials self m = None"
    proof (rule ccontr)
      assume "materials self m \<noteq> None"
      then obtain mat where "materials self m = Some mat" by blast
      from compute_quote_known_not_ValueError [OF this] n show False by blast
    qed
  next
    assume "materials self m = None"
    then show "\<exists>n. compute_quote self v m tp ty q sm ap ld = Inl (ValueError_Unknown_material n)"
      by (simp add: compute_quote_unfold)
  qed
next
  assume "materials self m \<noteq> None \<and> (\<exists>qf. float_of_int (clamp_quantity q) = Inr qf) \<and>
      (ld = None \<or> speed_mm_s self m \<noteq> 0)"
  then show "\<exists>b. compute_quote self v m tp ty q sm ap ld = Inr b"
    using compute_quote_succeeds by blast
next
  assume "type_pieces self tp = None"
  then show "type_factor_of self tp = 1" by (simp add: type_factor_of_def)
next
  assume "type_pieces self tp = None"
  then show "compute_quote self v m tp ty q sm ap ld =
        compute_quote (self \<lparr> type_pieces := (type_pieces self)(tp \<mapsto> TypePiece tp 1) \<rparr>)
          v m tp ty q sm ap ld"
    by (simp add: compute_quote_type_pieces_update type_factor_of_def)
next
  assume "typologies self ty = None"
  then show "bag_price_of self ty = 0" by (simp add: bag_price_of_def)
next
  assume "typologies self ty = None"
  then show "compute_quote self v m tp ty q sm ap ld =
        compute_quote (self \<lparr> typologies := (typologies self)(ty \<mapsto> Typology ty 0) \<rparr>)
          v m tp ty q sm ap ld"
    by (simp add: compute_quote_typologies_update bag_price_of_def)
qed

text \<open>
  On \<open>ex_engine\<close>: the material \<open>Bois\<close> is not configured and is rejected; the material
  \<open>Resin\<close> with the unknown keys \<open>Bijou\<close> and \<open>Colis\<close> is priced.
\<close>

theorem unknown_material_iff_witness:
  "materials ex_engine ''Bois'' = None \<and>
   (\<exists>n. compute_quote ex_engine 10 ''Bois'' ''Bijou'' ''Colis'' 3 ''retrait'' False None
          = Inl (ValueError_Unknown_material n)) \<and>
   materials ex_engine ''Resin'' \<noteq> None \<and> (\<exists>qf. float_of_int (clamp_quantity 3) = Inr qf) \<and>
   type_pieces ex_engine ''Bijou'' = None \<and> typologies ex_engine ''Colis'' = None \<and>
   (\<exists>b. compute_quote ex_engine 10 ''Resin'' ''Bijou'' ''Colis'' 3 ''retrait'' False None = Inr b) \<and>
   type_factor_of ex_engine ''Bijou'' = 1 \<and> bag_price_of ex_engine ''Colis'' = 0"
proof -
  have h0: "materials ex_engine ''Bois'' = None" by (simp add: ex_engine_def)
  have h1: "materials ex_engine ''Resin'' \<noteq> None" by (simp add: ex_engine_def)
  have h2: "\<exists>qf. float_of_int (clamp_quantity 3) = Inr qf"
    by (simp add: float_of_int_def clamp_quantity_def)
  have h3: "type_pieces ex_engine ''Bijou'' = None" by (simp add: ex_engine_def)
  have h4: "typologies ex_engine ''Colis'' = None" by (simp add: ex_engine_def)
  note a = unknown_material_iff [where self = ex_engine and m = "''Bois''" and tp = "''Bijou''"
      and ty = "''Colis''" and q = 3 and v = 10 and sm = "''retrait''" and ap = False and ld = None]
  note b = unknown_material_iff [where self = ex_engine and m = "''Resin''" and tp = "''Bijou''"
      and ty = "''Colis''" and q = 3 and v = 10 and sm = "''retrait''" and ap = False and ld = None]
  from a h0 have c0: "\<exists>n. compute_quote ex_engine 10 ''Bois'' ''Bijou'' ''Colis'' 3 ''retrait'' False None
          = Inl (ValueError_Unknown_material n)" by blast
  from b h1 h2 have c1: "\<exists>b. compute_quote ex_engine 10 ''Resin'' ''Bijou'' ''Colis'' 3 ''retrait'' False None = Inr b"
    by blast
  from b h3 have c2: "type_factor_of ex_engine ''Bijou'' = 1" by blast
  from b h4 have c3: "bag_price_of ex_engine ''Colis'' = 0" by blast
  from h0 h1 h2 h3 h4 c0 c1 c2 c3 show ?thesis by blast
qed

text \<open>
  C4 as stated fails: the material is configured, and the call raises ZeroDivisionError.
\<close>

theorem known_material_zero_speed_raises:
  "materials zero_speed_engine ''Resin'' \<noteq> None \<and>
   compute_quote zero_speed_engine 5 ''Resin'' ''Bijou'' ''Colis'' 2 ''livraison'' False (Some 40)
     = Inl ZeroDivisionError"
  by (simp add: compute_quote_unfold machine_time_hours_def speed_mm_s_def zero_speed_engine_def
      ex_engine_def float_of_int_def clamp_quantity_def)

text \<open>A quantity beyond the range of a float raises OverflowError.\<close>

lemma huge_quantity_raises:
  "compute_quote ex_engine 10 ''Resin'' ''Standard'' ''Fragile'' (10 ^ 400) ''retrait'' False None
     = Inl OverflowError"
  by (simp add: compute_quote_unfold ex_engine_def float_of_int_def clamp_quantity_def)

lemma ex_engine_quote_returns:
  "\<exists>b. compute_quote ex_engine v ''Resin'' tp ty 1 sm ap None = Inr b"
  "\<exists>b. compute_quote ex_engine v ''Resin'' tp ty 2 sm ap None = Inr b"
  by (rule compute_quote_succeeds [OF ex_engine_resin small_quantity_converts(1) disjI1 [OF refl]])
     (rule compute_quote_succeeds [OF ex_engine_resin small_quantity_converts(2) disjI1 [OF refl]])

lemma tuned_engine_quote_returns:
  "\<exists>b. compute_quote tuned_engine v ''Resin'' tp ty 2 sm ap None = Inr b"
  by (rule compute_quote_succeeds [OF tuned_engine_resin small_quantity_converts(2) disjI1 [OF refl]])

text \<open>
  C6. Whenever \<open>compute_quote\<close> returns a breakdown, the quantity has been clamped to at
  least 1 (the result is that of the clamped quantity), the effective volume
  \<open>volume_ml * quantity\<close> is the key of both tier lookups, the volume with supports is
  the effective volume times \<open>1 + support_percent / 100\<close> with the support percentage
  configured for the material (0.0 when none is), and the material cost is the volume
  with supports times the price per ml of the material times the type factor of the
  configuration (1.0 for an unknown key). With a volume of 10, a quantity of 2, a price
  of 0.50, no supports and a type factor of 1.0 the effective volume and the volume
  with supports are 20 and the material cost is 10.
\<close>

theorem pipeline_volumes:
  assumes "compute_quote self v m tp ty q sm ap ld = Inr b"
  shows "\<exists>mat. materials self m = Some mat \<and>
           compute_quote self v m tp ty (max 1 q) sm ap ld = Inr b \<and>
           markup_factor b = tier_scan 1 (markup_table self) (v * real_of_int (max 1 q)) \<and>
           packaging_cost b = tier_scan 0 (packaging_table self) (v * real_of_int (max 1 q)) \<and>
           volume_with_supports_ml b =
             (v * real_of_int (max 1 q))
               * (1 + (case material_support_percent self m of None \<Rightarrow> 0 | Some s \<Rightarrow> s) / 100) \<and>
           material_cost b =
             volume_with_supports_ml b * price_per_ml_with_loss mat
               * (case type_pieces self tp of None \<Rightarrow> 1 | Some t \<Rightarrow> factor t) \<and>
           (v = 10 \<and> q = 2 \<and> price_per_ml_with_loss mat = 1 / 2 \<and>
            (case material_support_percent self m of None \<Rightarrow> 0 | Some s \<Rightarrow> s) = 0 \<and>
            (case type_pieces self tp of None \<Rightarrow> 1 | Some t \<Rightarrow> factor t) = 1 \<longrightarrow>
              v * real_of_int (max 1 q) = 20 \<and> volume_with_supports_ml b = 20 \<and>
              material_cost b = 10)"
proof -
  from compute_quote_InrD [OF assms] obtain mat hours where
    mat: "materials self m = Some mat" and
    b: "b = price_breakdown self (real_of_int (clamp_quantity q))
                 (eff_volume_ml v (real_of_int (clamp_quantity q)))
                 (volume_with_supports self m (eff_volume_ml v (real_of_int (clamp_quantity q))))
                 (volume_with_supports self m (eff_volume_ml v (real_of_int (clamp_quantity q)))
                    * price_per_ml_with_loss mat * type_factor_of self tp)
                 hours sm ap (bag_price_of self ty)"
    by blast
  have cl: "clamp_quantity (max 1 q) = clamp_quantity q"
    by (simp add: clamp_quantity_def max_def)
  have same: "compute_quote self v m tp ty (max 1 q) sm ap ld = compute_quote self v m tp ty q sm ap ld"
    unfolding compute_quote_unfold cl by (rule refl)
  have f1: "markup_factor b = tier_scan 1 (markup_table self) (v * real_of_int (max 1 q))"
    by (simp add: b price_breakdown_fields eff_volume_ml_def clamp_quantity_max
        get_markup_factor_def)
  have f2: "packaging_cost b = tier_scan 0 (packaging_table self) (v * real_of_int (max 1 q))"
    by (simp add: b price_breakdown_fields eff_volume_ml_def clamp_quantity_max
        get_packaging_cost_def)
  have f3: "volume_with_supports_ml b =
             (v * real_of_int (max 1 q))
               * (1 + (case material_support_percent self m of None \<Rightarrow> 0 | Some s \<Rightarrow> s) / 100)"
    unfolding config_lookups(3) [symmetric]
    by (simp add: b price_breakdown_fields eff_volume_ml_def volume_with_supports_def
        clamp_quantity_max)
  have f4: "material_cost b =
             volume_with_supports_ml b * price_per_ml_with_loss mat
               * (case type_pieces self tp of None \<Rightarrow> 1 | Some t \<Rightarrow> factor t)"
    unfolding config_lookups(2) [symmetric] by (simp add: b price_breakdown_fields)
  have f5: "v = 10 \<and> q = 2 \<and> price_per_ml_with_loss mat = 1 / 2 \<and>
            (case material_support_percent self m of None \<Rightarrow> 0 | Some s \<Rightarrow> s) = 0 \<and>
            (case type_pieces self tp of None \<Rightarrow> 1 | Some t \<Rightarrow> factor t) = 1 \<longrightarrow>
              v * real_of_int (max 1 q) = 20 \<and> volume_with_supports_ml b = 20 \<and>
              material_cost b = 10"
    using f3 f4 by auto
  from mat same assms f1 f2 f3 f4 f5 show ?thesis by simp
qed

text \<open>
  The scenario on \<open>ex_engine\<close>, whose material has the price 0.50 and no supports; on
  \<open>tuned_engine\<close>, with 20 percent of supports and a type factor of 1.5, the same order
  gives 24 ml with supports and a material cost of 18.
\<close>

theorem pipeline_volumes_witness:
  "(\<exists>b. compute_quote ex_engine 10 ''Resin'' ''Standard'' ''Fragile'' 2 ''retrait'' False None = Inr b \<and>
        volume_with_supports_ml b = 20 \<and> material_cost b = 10) \<and>
   (\<exists>b. compute_quote tuned_engine 10 ''Resin'' ''Standard'' ''Fragile'' 2 ''retrait'' False None = Inr b \<and>
        volume_with_supports_ml b = 24 \<and> material_cost b = 18)"
proof -
  obtain b where b: "compute_quote ex_engine 10 ''Resin'' ''Standard'' ''Fragile'' 2 ''retrait'' False None = Inr b"
    using ex_engine_quote_returns(2) by blast
  from pipeline_volumes [OF b] obtain mat where
    mat: "materials ex_engine ''Resin'' = Some mat" and
    sc: "(10::real) = 10 \<and> (2::int) = 2 \<and> price_per_ml_with_loss mat = 1 / 2 \<and>
         (case material_support_percent ex_engine ''Resin'' of None \<Rightarrow> 0 | Some s \<Rightarrow> s) = 0 \<and>
         (case type_pieces ex_engine ''Standard'' of None \<Rightarrow> 1 | Some t \<Rightarrow> factor t) = 1 \<longrightarrow>
              10 * real_of_int (max 1 2) = 20 \<and> volume_with_supports_ml b = 20 \<and>
              material_cost b = 10"
    by blast
  from mat have "price_per_ml_with_loss mat = 1 / 2" by (auto simp: ex_engine_def)
  moreover have "(case material_support_percent ex_engine ''Resin'' of None \<Rightarrow> 0 | Some s \<Rightarrow> s) = 0"
    by (simp add: ex_engine_def)
  moreover have "(case type_pieces ex_engine ''Standard'' of None \<Rightarrow> 1 | Some t \<Rightarrow> factor t) = 1"
    by (simp add: ex_engine_def)
  ultimately have "volume_with_supports_ml b = 20 \<and> material_cost b = 10" using sc by blast
  with b have c1: "\<exists>b. compute_quote ex_engine 10 ''Resin'' ''Standard'' ''Fragile'' 2 ''retrait'' False None = Inr b \<and>
        volume_with_supports_ml b = 20 \<and> material_cost b = 10" by blast
  obtain b' where b': "compute_quote tuned_engine 10 ''Resin'' ''Standard'' ''Fragile'' 2 ''retrait'' False None = Inr b'"
    using tuned_engine_quote_returns by blast
  from pipeline_volumes [OF b'] obtain mat' where
    mat': "materials tuned_engine ''Resin'' = Some mat'" and
    v: "volume_with_supports_ml b' =
             (10 * real_of_int (max 1 2))
               * (1 + (case material_support_percent tuned_engine ''Resin'' of
                         None \<Rightarrow> 0 | Some s \<Rightarrow> s) / 100)" and
    c: "material_cost b' =
             volume_with_supports_ml b' * price_per_ml_with_loss mat'
               * (case type_pieces tuned_engine ''Standard'' of None \<Rightarrow> 1 | Some t \<Rightarrow> factor t)"
    by blast
  from mat' have p: "price_per_ml_with_loss mat' = 1 / 2" by (auto simp: tuned_engine_def)
  from v have v': "volume_with_supports_ml b' = 24" by (simp add: tuned_engine_def)
  from c have "material_cost b' = 18" unfolding v' p by (simp add: tuned_engine_def)
  with b' v' have c2: "\<exists>b. compute_quote tuned_engine 10 ''Resin'' ''Standard'' ''Fragile'' 2 ''retrait'' False None = Inr b \<and>
        volume_with_supports_ml b = 24 \<and> material_cost b = 18" by blast
  from c1 c2 show ?thesis by blast
qed

text \<open>Only the test \<open>shipping_method == 'retrait'\<close> reads the shipping method.\<close>

lemma compute_quote_shipping_cong:
  assumes "(sm = ''retrait'') = (sm' = ''retrait'')"
  shows "compute_quote self v m tp ty q sm ap ld = compute_quote self v m tp ty q sm' ap ld"
  using assms
  by (simp add: compute_quote_unfold price_breakdown_def Let_def split: option.splits sum.splits)

lemma compute_quote_error_any_shipping:
  assumes "compute_quote self v m tp ty q sm ap ld = Inl e"
  shows "compute_quote self v m tp ty q sm' ap ld = Inl e"
proof (cases "materials self m")
  case None
  with assms show ?thesis by (simp add: compute_quote_unfold)
next
  case (Some mat)
  note mat = this
  show ?thesis
  proof (cases "float_of_int (clamp_quantity q)")
    case (Inl e')
    with assms mat show ?thesis by (simp add: compute_quote_unfold)
  next
    case (Inr qf)
    note qf = this
    show ?thesis
    proof (cases "machine_time_hours self m (volume_with_supports self m (eff_volume_ml v qf))
                    (type_factor_of self tp) ld")
      case (Inl e')
      with assms mat qf show ?thesis by (simp add: compute_quote_unfold)
    next
      case (Inr hours)
      with assms mat qf show ?thesis by (simp add: compute_quote_unfold)
    qed
  qed
qed

text \<open>
  C9. For every shipping method other than the exact string \<open>retrait\<close>, misspelled or
  unknown values included, \<open>compute_quote\<close> behaves as for \<open>livraison\<close>: the breakdown it
  returns charges the delivery rate as shipping cost. The shipping method raises no
  error: an error raised with such a value is raised with \<open>retrait\<close> too. With
  \<open>retrait\<close> the pickup rate is charged.
\<close>

theorem unrecognized_shipping_is_delivery:
  assumes "sm \<noteq> ''retrait''"
  shows "compute_quote self v m tp ty q sm ap ld = compute_quote self v m tp ty q ''livraison'' ap ld \<and>
         (\<forall>b. compute_quote self v m tp ty q sm ap ld = Inr b \<longrightarrow>
              shipping_cost b = shipping_delivery self) \<and>
         (\<forall>b. compute_quote self v m tp ty q ''retrait'' ap ld = Inr b \<longrightarrow>
              shipping_cost b = shipping_retrait self) \<and>
         (\<forall>e. compute_quote self v m tp ty q sm ap ld = Inl e \<longrightarrow>
              compute_quote self v m tp ty q ''retrait'' ap ld = Inl e)"
proof (intro conjI allI impI)
  show "compute_quote self v m tp ty q sm ap ld = compute_quote self v m tp ty q ''livraison'' ap ld"
    using assms by (intro compute_quote_shipping_cong) simp
next
  fix b assume "compute_quote self v m tp ty q sm ap ld = Inr b"
  from compute_quote_InrD [OF this] assms show "shipping_cost b = shipping_delivery self"
    by (auto simp: price_breakdown_fields)
next
  fix b assume "compute_quote self v m tp ty q ''retrait'' ap ld = Inr b"
  from compute_quote_InrD [OF this] show "shipping_cost b = shipping_retrait self"
    by (auto simp: price_breakdown_fields)
next
  fix e assume "compute_quote self v m tp ty q sm ap ld = Inl e"
  then show "compute_quote self v m tp ty q ''retrait'' ap ld = Inl e"
    by (rule compute_quote_error_any_shipping)
qed

text \<open>The misspelled method \<open>livrasion\<close> on \<open>ex_engine\<close> is charged the delivery rate 12.\<close>

theorem unrecognized_shipping_is_delivery_witness:
  "''livrasion'' \<noteq> ''retrait'' \<and>
   (\<exists>b. compute_quote ex_engine 10 ''Resin'' ''Standard'' ''Fragile'' 1 ''livrasion'' False None = Inr b \<and>
        shipping_cost b = 12)"
proof -
  have h: "''livrasion'' \<noteq> ''retrait''" by simp
  obtain b where b: "compute_quote ex_engine 10 ''Resin'' ''Standard'' ''Fragile'' 1 ''livrasion'' False None = Inr b"
    using ex_engine_quote_returns(1) by blast
  from unrecognized_shipping_is_delivery [OF h, where self = ex_engine and v = 10 and m = "''Resin''"
      and tp = "''Standard''" and ty = "''Fragile''" and q = 1 and ap = False and ld = None] b
  have "shipping_cost b = shipping_delivery ex_engine" by blast
  then have "shipping_cost b = 12" by (simp add: ex_engine_def)
  with h b show ?thesis by blast
qed

text \<open>
  C10. The flag \<open>add_painting\<close> has no effect: \<open>compute_quote\<close> returns the same result
  with \<open>True\<close> and with \<open>False\<close>, and \<open>painting_cost\<close> is 0 in every breakdown returned.
\<close>

theorem add_painting_has_no_effect:
  "compute_quote self v m tp ty q sm True ld = compute_quote self v m tp ty q sm False ld \<and>
   (\<forall>b. compute_quote self v m tp ty q sm ap ld = Inr b \<longrightarrow> painting_cost b = 0)"
proof (intro conjI allI impI)
  show "compute_quote self v m tp ty q sm True ld = compute_quote self v m tp ty q sm False ld"
    by (simp add: compute_quote_unfold price_breakdown_def Let_def split: option.splits sum.splits)
next
  fix b assume "compute_quote self v m tp ty q sm ap ld = Inr b"
  from compute_quote_InrD [OF this] show "painting_cost b = 0"
    by (auto simp: price_breakdown_fields)
qed

text \<open>A quote on \<open>ex_engine\<close> with painting requested.\<close>

theorem add_painting_has_no_effect_witness:
  "\<exists>b. compute_quote ex_engine 10 ''Resin'' ''Standard'' ''Fragile'' 1 ''retrait'' True None = Inr b \<and>
       painting_cost b = 0 \<and>
       compute_quote ex_engine 10 ''Resin'' ''Standard'' ''Fragile'' 1 ''retrait'' False None = Inr b"
proof -
  obtain b where b: "compute_quote ex_engine 10 ''Resin'' ''Standard'' ''Fragile'' 1 ''retrait'' True None = Inr b"
    using ex_engine_quote_returns(1) by blast
  note t = add_painting_has_no_effect [where self = ex_engine and v = 10 and m = "''Resin''"
      and tp = "''Standard''" and ty = "''Fragile''" and q = 1 and sm = "''retrait''" and ap = True
      and ld = None]
  from t b have "painting_cost b = 0" by blast
  moreover from t b have
    "compute_quote ex_engine 10 ''Resin'' ''Standard'' ''Fragile'' 1 ''retrait'' False None = Inr b"
    by simp
  ultimately show ?thesis using b by blast
qed

section \<open>Monotonicity in the quantity\<close>

lemma tier_scan_lower: "sorted (d # map snd tbl) \<Longrightarrow> d \<le> tier_scan d tbl v"
proof (induction tbl arbitrary: d)
  case Nil
  then show ?case by simp
next
  case (Cons p tbl)
  obtain t f where p: "p = (t, f)" by (cases p)
  from Cons.prems p have df: "d \<le> f" and srt: "sorted (f # map snd tbl)" by simp_all
  from Cons.IH [OF srt] have "f \<le> tier_scan f tbl v" .
  with df p show ?case by simp
qed

lemma tier_scan_mono:
  "sorted (d # map snd tbl) \<Longrightarrow> a \<le> b \<Longrightarrow> tier_scan d tbl a \<le> tier_scan d tbl b"
proof (induction tbl arbitrary: d)
  case Nil
  then show ?case by simp
next
  case (Cons p tbl)
  obtain t f where p: "p = (t, f)" by (cases p)
  from Cons.prems p have df: "d \<le> f" and srt: "sorted (f # map snd tbl)" by simp_all
  show ?case
  proof (cases "t \<le> a")
    case True
    with Cons.prems(2) have "t \<le> b" by simp
    with True p Cons.IH [OF srt Cons.prems(2)] show ?thesis by simp
  next
    case False
    note a = this
    show ?thesis
    proof (cases "t \<le> b")
      case True
      from tier_scan_lower [OF srt] have "f \<le> tier_scan f tbl b" .
      with df a True p show ?thesis by simp
    next
      case False
      with a p show ?thesis by simp
    qed
  qed
qed

lemma nonneg_config_keys:
  assumes "nonneg_config self"
  shows "0 \<le> support_percent_of self m" and "0 \<le> speed_mm_s self m"
    and "0 \<le> type_factor_of self tp" and "0 \<le> bag_price_of self ty"
    and "materials self m = Some mat \<Longrightarrow> 0 \<le> price_per_ml_with_loss mat"
proof -
  show "0 \<le> support_percent_of self m"
    using assms by (auto simp: nonneg_config_def support_percent_of_def ran_def split: option.splits)
  show "0 \<le> speed_mm_s self m"
    using assms by (auto simp: nonneg_config_def speed_mm_s_def ran_def split: option.splits)
  show "0 \<le> type_factor_of self tp"
    using assms by (auto simp: nonneg_config_def type_factor_of_def ran_def split: option.splits)
  show "0 \<le> bag_price_of self ty"
    using assms by (auto simp: nonneg_config_def bag_price_of_def ran_def split: option.splits)
  show "materials self m = Some mat \<Longrightarrow> 0 \<le> price_per_ml_with_loss mat"
    using assms by (auto simp: nonneg_config_def ran_def)
qed

lemma machine_time_hours_le:
  assumes nn: "nonneg_config self" and w: "w1 \<le> w2"
    and h1: "machine_time_hours self m w1 (type_factor_of self tp) ld = Inr h1"
    and h2: "machine_time_hours self m w2 (type_factor_of self tp) ld = Inr h2"
  shows "h1 \<le> h2"
proof (cases ld)
  case None
  have tf: "0 \<le> type_factor_of self tp" using nn by (rule nonneg_config_keys)
  have mt: "0 \<le> machine_time_per_ml self" using nn by (simp add: nonneg_config_def)
  from None h1 have e1: "h1 = w1 * machine_time_per_ml self * type_factor_of self tp"
    by (simp add: machine_time_hours_def)
  from None h2 have e2: "h2 = w2 * machine_time_per_ml self * type_factor_of self tp"
    by (simp add: machine_time_hours_def)
  have "w1 * machine_time_per_ml self \<le> w2 * machine_time_per_ml self"
    using w mt by (rule mult_right_mono)
  then show ?thesis unfolding e1 e2 using tf by (rule mult_right_mono)
next
  case (Some d)
  from Some h1 have e1: "h1 = d * time_factor self / speed_mm_s self m / 3600"
    by (simp add: machine_time_hours_def Let_def split: if_splits)
  from Some h2 have e2: "h2 = d * time_factor self / speed_mm_s self m / 3600"
    by (simp add: machine_time_hours_def Let_def split: if_splits)
  show ?thesis unfolding e1 e2 by simp
qed

lemma machine_time_hours_nonneg:
  assumes nn: "nonneg_config self" and ld: "\<forall>d. ld = Some d \<longrightarrow> 0 \<le> d"
    and w: "0 \<le> w1"
    and h1: "machine_time_hours self m w1 (type_factor_of self tp) ld = Inr h1"
  shows "0 \<le> h1"
proof (cases ld)
  case None
  have tf: "0 \<le> type_factor_of self tp" using nn by (rule nonneg_config_keys)
  have mt: "0 \<le> machine_time_per_ml self" using nn by (simp add: nonneg_config_def)
  from None h1 have e1: "h1 = w1 * machine_time_per_ml self * type_factor_of self tp"
    by (simp add: machine_time_hours_def)
  have "0 \<le> w1 * machine_time_per_ml self" using w mt by (rule mult_nonneg_nonneg)
  then show ?thesis unfolding e1 using tf by (rule mult_nonneg_nonneg)
next
  case (Some d)
  with ld have d: "0 \<le> d" by simp
  have sp: "0 \<le> speed_mm_s self m" using nn by (rule nonneg_config_keys)
  have tf: "0 \<le> time_factor self" using nn by (simp add: nonneg_config_def)
  from Some h1 have e1: "h1 = d * time_factor self / speed_mm_s self m / 3600"
    by (simp add: machine_time_hours_def Let_def split: if_splits)
  have "0 \<le> d * time_factor self" using d tf by (rule mult_nonneg_nonneg)
  then have "0 \<le> d * time_factor self / speed_mm_s self m" using sp by (rule divide_nonneg_nonneg)
  then have "0 \<le> d * time_factor self / speed_mm_s self m / 3600"
    by (rule divide_nonneg_nonneg) simp
  then show ?thesis unfolding e1 .
qed

lemma total_before_markup_mono:
  assumes nn: "nonneg_config self" and mc: "mc1 \<le> mc2" and h: "h1 \<le> h2"
  shows "total_cost_before_markup (price_breakdown self c1 e1 w1 mc1 h1 sm ap bp)
           \<le> total_cost_before_markup (price_breakdown self c2 e2 w2 mc2 h2 sm ap bp)"
proof -
  from nn have r: "0 \<le> machine_hour_rate self" and po: "0 \<le> post_rate self"
    and fi: "0 \<le> finish_rate self"
    by (simp_all add: nonneg_config_def)
  have mach: "h1 * machine_hour_rate self \<le> h2 * machine_hour_rate self"
    using h r by (rule mult_right_mono)
  have base: "mc1 + h1 * machine_hour_rate self \<le> mc2 + h2 * machine_hour_rate self"
    using mc mach by (rule add_mono)
  have post: "(mc1 + h1 * machine_hour_rate self) * post_rate self
                \<le> (mc2 + h2 * machine_hour_rate self) * post_rate self"
    using base po by (rule mult_right_mono)
  have fin: "(mc1 + h1 * machine_hour_rate self) * finish_rate self
                \<le> (mc2 + h2 * machine_hour_rate self) * finish_rate self"
    using base fi by (rule mult_right_mono)
  show ?thesis using base post fin by (simp add: price_breakdown_fields)
qed

text \<open>The fields that do not read a tier table.\<close>

lemma price_breakdown_mono_basic:
  assumes nn: "nonneg_config self" and bp: "0 \<le> bp"
    and c: "c1 \<le> c2" and w: "w1 \<le> w2" and mc: "mc1 \<le> mc2" and h: "h1 \<le> h2"
  shows "material_cost (price_breakdown self c1 e1 w1 mc1 h1 sm ap bp)
           \<le> material_cost (price_breakdown self c2 e2 w2 mc2 h2 sm ap bp)"
    and "machine_cost (price_breakdown self c1 e1 w1 mc1 h1 sm ap bp)
           \<le> machine_cost (price_breakdown self c2 e2 w2 mc2 h2 sm ap bp)"
    and "base_cost (price_breakdown self c1 e1 w1 mc1 h1 sm ap bp)
           \<le> base_cost (price_breakdown self c2 e2 w2 mc2 h2 sm ap bp)"
    and "post_cost (price_breakdown self c1 e1 w1 mc1 h1 sm ap bp)
           \<le> post_cost (price_breakdown self c2 e2 w2 mc2 h2 sm ap bp)"
    and "finish_cost (price_breakdown self c1 e1 w1 mc1 h1 sm ap bp)
           \<le> finish_cost (price_breakdown self c2 e2 w2 mc2 h2 sm ap bp)"
    and "painting_cost (price_breakdown self c1 e1 w1 mc1 h1 sm ap bp)
           \<le> painting_cost (price_breakdown self c2 e2 w2 mc2 h2 sm ap bp)"
    and "total_cost_before_markup (price_breakdown self c1 e1 w1 mc1 h1 sm ap bp)
           \<le> total_cost_before_markup (price_breakdown self c2 e2 w2 mc2 h2 sm ap bp)"
    and "bag_cost (price_breakdown self c1 e1 w1 mc1 h1 sm ap bp)
           \<le> bag_cost (price_breakdown self c2 e2 w2 mc2 h2 sm ap bp)"
    and "shipping_cost (price_breakdown self c1 e1 w1 mc1 h1 sm ap bp)
           \<le> shipping_cost (price_breakdown self c2 e2 w2 mc2 h2 sm ap bp)"
    and "volume_with_supports_ml (price_breakdown self c1 e1 w1 mc1 h1 sm ap bp)
           \<le> volume_with_supports_ml (price_breakdown self c2 e2 w2 mc2 h2 sm ap bp)"
    and "print_time_minutes (price_breakdown self c1 e1 w1 mc1 h1 sm ap bp)
           \<le> print_time_minutes (price_breakdown self c2 e2 w2 mc2 h2 sm ap bp)"
proof -
  let ?B1 = "price_breakdown self c1 e1 w1 mc1 h1 sm ap bp"
  let ?B2 = "price_breakdown self c2 e2 w2 mc2 h2 sm ap bp"
  from nn have r: "0 \<le> machine_hour_rate self" and po: "0 \<le> post_rate self"
    and fi: "0 \<le> finish_rate self"
    by (simp_all add: nonneg_config_def)
  have mach: "h1 * machine_hour_rate self \<le> h2 * machine_hour_rate self"
    using h r by (rule mult_right_mono)
  have base: "mc1 + h1 * machine_hour_rate self \<le> mc2 + h2 * machine_hour_rate self"
    using mc mach by (rule add_mono)
  have post: "(mc1 + h1 * machine_hour_rate self) * post_rate self
                \<le> (mc2 + h2 * machine_hour_rate self) * post_rate self"
    using base po by (rule mult_right_mono)
  have fin: "(mc1 + h1 * machine_hour_rate self) * finish_rate self
                \<le> (mc2 + h2 * machine_hour_rate self) * finish_rate self"
    using base fi by (rule mult_right_mono)
  have bag: "bp * c1 \<le> bp * c2" using c bp by (rule mult_left_mono)
  show "material_cost ?B1 \<le> material_cost ?B2" using mc by (simp add: price_breakdown_fields)
  show "machine_cost ?B1 \<le> machine_cost ?B2" using mach by (simp add: price_breakdown_fields)
  show "base_cost ?B1 \<le> base_cost ?B2" using base by (simp add: price_breakdown_fields)
  show "post_cost ?B1 \<le> post_cost ?B2" using post by (simp add: price_breakdown_fields)
  show "finish_cost ?B1 \<le> finish_cost ?B2" using fin by (simp add: price_breakdown_fields)
  show "painting_cost ?B1 \<le> painting_cost ?B2" by (simp add: price_breakdown_fields)
  show "total_cost_before_markup ?B1 \<le> total_cost_before_markup ?B2"
    using nn mc h by (rule total_before_markup_mono)
  show "bag_cost ?B1 \<le> bag_cost ?B2" using bag by (simp add: price_breakdown_fields)
  show "shipping_cost ?B1 \<le> shipping_cost ?B2" by (simp add: price_breakdown_fields)
  show "volume_with_supports_ml ?B1 \<le> volume_with_supports_ml ?B2"
    using w by (simp add: price_breakdown_fields)
  show "print_time_minutes ?B1 \<le> print_time_minutes ?B2"
    using h by (simp add: price_breakdown_fields)
qed

text \<open>The fields that read a tier table, each under the conditions it needs.\<close>

lemma price_breakdown_mono_markup:
  assumes "markup_values_nondecreasing self" and "e1 \<le> e2"
  shows "markup_factor (price_breakdown self c1 e1 w1 mc1 h1 sm ap bp)
           \<le> markup_factor (price_breakdown self c2 e2 w2 mc2 h2 sm ap bp)"
  using assms
  by (simp add: price_breakdown_fields get_markup_factor_def markup_values_nondecreasing_def
      tier_scan_mono)

lemma price_breakdown_mono_packaging:
  assumes "packaging_values_nondecreasing self" and "e1 \<le> e2"
  shows "packaging_cost (price_breakdown self c1 e1 w1 mc1 h1 sm ap bp)
           \<le> packaging_cost (price_breakdown self c2 e2 w2 mc2 h2 sm ap bp)"
  using assms
  by (simp add: price_breakdown_fields get_packaging_cost_def packaging_values_nondecreasing_def
      tier_scan_mono)

lemma price_breakdown_mono_plate:
  assumes nn: "nonneg_config self" and mk: "markup_values_nondecreasing self"
    and e: "e1 \<le> e2" and mc: "0 \<le> mc1" "mc1 \<le> mc2" and h: "0 \<le> h1" "h1 \<le> h2"
  shows "price_ht_plate (price_breakdown self c1 e1 w1 mc1 h1 sm ap bp)
           \<le> price_ht_plate (price_breakdown self c2 e2 w2 mc2 h2 sm ap bp)"
proof -
  let ?B1 = "price_breakdown self c1 e1 w1 mc1 h1 sm ap bp"
  let ?B2 = "price_breakdown self c2 e2 w2 mc2 h2 sm ap bp"
  from nn have r: "0 \<le> machine_hour_rate self" and po: "0 \<le> post_rate self"
    and fi: "0 \<le> finish_rate self"
    by (simp_all add: nonneg_config_def)
  from mk have smk: "sorted (1 # map snd (markup_table self))"
    by (simp add: markup_values_nondecreasing_def)
  have mach0: "0 \<le> h1 * machine_hour_rate self" using h(1) r by (rule mult_nonneg_nonneg)
  have base0: "0 \<le> mc1 + h1 * machine_hour_rate self" using mc(1) mach0 by simp
  have post0: "0 \<le> (mc1 + h1 * machine_hour_rate self) * post_rate self"
    using base0 po by (rule mult_nonneg_nonneg)
  have fin0: "0 \<le> (mc1 + h1 * machine_hour_rate self) * finish_rate self"
    using base0 fi by (rule mult_nonneg_nonneg)
  have tb0: "0 \<le> total_cost_before_markup ?B1"
    using base0 post0 fin0 by (simp add: price_breakdown_fields)
  have tb: "total_cost_before_markup ?B1 \<le> total_cost_before_markup ?B2"
    using nn mc(2) h(2) by (rule total_before_markup_mono)
  have mk0: "0 \<le> get_markup_factor self e1"
    using tier_scan_lower [OF smk, of e1] by (simp add: get_markup_factor_def)
  have mkm: "get_markup_factor self e1 \<le> get_markup_factor self e2"
    unfolding get_markup_factor_def using smk e by (rule tier_scan_mono)
  show ?thesis unfolding price_breakdown_totals(1) using tb mkm tb0 mk0 by (rule mult_mono')
qed


lemma price_breakdown_mono_totals:
  assumes nn: "nonneg_config self" and mk: "markup_values_nondecreasing self"
    and pk: "packaging_values_nondecreasing self" and bp: "0 \<le> bp" and c: "c1 \<le> c2"
    and e: "e1 \<le> e2" and mc: "0 \<le> mc1" "mc1 \<le> mc2" and h: "0 \<le> h1" "h1 \<le> h2"
  shows "total_ht (price_breakdown self c1 e1 w1 mc1 h1 sm ap bp)
           \<le> total_ht (price_breakdown self c2 e2 w2 mc2 h2 sm ap bp)"
    and "vat (price_breakdown self c1 e1 w1 mc1 h1 sm ap bp)
           \<le> vat (price_breakdown self c2 e2 w2 mc2 h2 sm ap bp)"
    and "total_ttc (price_breakdown self c1 e1 w1 mc1 h1 sm ap bp)
           \<le> total_ttc (price_breakdown self c2 e2 w2 mc2 h2 sm ap bp)"
proof -
  let ?B1 = "price_breakdown self c1 e1 w1 mc1 h1 sm ap bp"
  let ?B2 = "price_breakdown self c2 e2 w2 mc2 h2 sm ap bp"
  from nn have tva: "0 \<le> tva_rate self" by (simp add: nonneg_config_def)
  have ht: "price_ht_plate ?B1 \<le> price_ht_plate ?B2"
    using nn mk e mc h by (rule price_breakdown_mono_plate)
  have pkm: "get_packaging_cost self e1 \<le> get_packaging_cost self e2"
    using pk e by (simp add: get_packaging_cost_def packaging_values_nondecreasing_def
        tier_scan_mono)
  have bag: "bp * c1 \<le> bp * c2" using c bp by (rule mult_left_mono)
  show tot: "total_ht ?B1 \<le> total_ht ?B2"
    unfolding price_breakdown_totals(2) using ht pkm bag by simp
  show vt: "vat ?B1 \<le> vat ?B2"
    unfolding price_breakdown_totals(3) using tot tva by (rule mult_right_mono)
  show "total_ttc ?B1 \<le> total_ttc ?B2"
    unfolding price_breakdown_totals(4) using tot vt by (rule add_mono)
qed

text \<open>
  C2 (amended). Fix a volume that is at least 0, the keys, the shipping method, the
  largest dimension and a configuration whose rates, factors and prices are
  non-negative, and let \<open>compute_quote\<close> return a breakdown for the quantities
  \<open>q1 \<le> q2\<close>. The fields that read no tier table (material, machine, base, post, finish,
  painting, total before markup, bag and shipping costs, volume with supports, print
  time) do not decrease from \<open>q1\<close> to \<open>q2\<close>. The markup factor does not decrease when the
  markup factors do not decrease from one tier to the next, starting from the default
  1.0; the packaging cost does not when the packaging prices do not decrease, starting
  from 0.0; the price of the plate does not when moreover the largest dimension is
  absent or at least 0; the totals and the tax do not under all three conditions.
\<close>

theorem quote_monotone_in_quantity:
  assumes nn: "nonneg_config self" and v0: "0 \<le> v" and q: "q1 \<le> q2"
    and r1: "compute_quote self v m tp ty q1 sm ap ld = Inr b1"
    and r2: "compute_quote self v m tp ty q2 sm ap ld = Inr b2"
  shows "material_cost b1 \<le> material_cost b2 \<and>
         machine_cost b1 \<le> machine_cost b2 \<and>
         base_cost b1 \<le> base_cost b2 \<and>
         post_cost b1 \<le> post_cost b2 \<and>
         finish_cost b1 \<le> finish_cost b2 \<and>
         painting_cost b1 \<le> painting_cost b2 \<and>
         total_cost_before_markup b1 \<le> total_cost_before_markup b2 \<and>
         bag_cost b1 \<le> bag_cost b2 \<and>
         shipping_cost b1 \<le> shipping_cost b2 \<and>
         volume_with_supports_ml b1 \<le> volume_with_supports_ml b2 \<and>
         print_time_minutes b1 \<le> print_time_minutes b2 \<and>
         (markup_values_nondecreasing self \<longrightarrow> markup_factor b1 \<le> markup_factor b2) \<and>
         (packaging_values_nondecreasing self \<longrightarrow> packaging_cost b1 \<le> packaging_cost b2) \<and>
         (markup_values_nondecreasing self \<and> (\<forall>d. ld = Some d \<longrightarrow> 0 \<le> d) \<longrightarrow>
            price_ht_plate b1 \<le> price_ht_plate b2) \<and>
         (markup_values_nondecreasing self \<and> packaging_values_nondecreasing self \<and>
          (\<forall>d. ld = Some d \<longrightarrow> 0 \<le> d) \<longrightarrow>
            total_ht b1 \<le> total_ht b2 \<and> vat b1 \<le> vat b2 \<and> total_ttc b1 \<le> total_ttc b2)"
proof -
  let ?c1 = "real_of_int (clamp_quantity q1)" and ?c2 = "real_of_int (clamp_quantity q2)"
  let ?e1 = "eff_volume_ml v ?c1" and ?e2 = "eff_volume_ml v ?c2"
  let ?w1 = "volume_with_supports self m ?e1" and ?w2 = "volume_with_supports self m ?e2"
  let ?tf = "type_factor_of self tp"
  from compute_quote_InrD [OF r1] obtain mat hours1 where
    mat: "materials self m = Some mat" and
    h1: "machine_time_hours self m ?w1 ?tf ld = Inr hours1" and
    b1: "b1 = price_breakdown self ?c1 ?e1 ?w1 (?w1 * price_per_ml_with_loss mat * ?tf)
                hours1 sm ap (bag_price_of self ty)"
    by blast
  from compute_quote_InrD [OF r2] mat obtain hours2 where
    h2: "machine_time_hours self m ?w2 ?tf ld = Inr hours2" and
    b2: "b2 = price_breakdown self ?c2 ?e2 ?w2 (?w2 * price_per_ml_with_loss mat * ?tf)
                hours2 sm ap (bag_price_of self ty)"
    by auto
  have c0: "0 \<le> ?c1" by (simp add: clamp_quantity_def)
  have c: "?c1 \<le> ?c2" using q by (simp add: clamp_quantity_def)
  have e0: "0 \<le> ?e1" unfolding eff_volume_ml_def using v0 c0 by (rule mult_nonneg_nonneg)
  have e: "?e1 \<le> ?e2" unfolding eff_volume_ml_def using c v0 by (rule mult_left_mono)
  have sp: "0 \<le> 1 + support_percent_of self m / 100"
    using nonneg_config_keys(1) [OF nn, of m] by simp
  have w0: "0 \<le> ?w1" unfolding volume_with_supports_def using e0 sp by (rule mult_nonneg_nonneg)
  have w: "?w1 \<le> ?w2" unfolding volume_with_supports_def using e sp by (rule mult_right_mono)
  have pr: "0 \<le> price_per_ml_with_loss mat" using nonneg_config_keys(5) [OF nn mat] .
  have tf: "0 \<le> ?tf" using nn by (rule nonneg_config_keys)
  have bp: "0 \<le> bag_price_of self ty" using nn by (rule nonneg_config_keys)
  have wp0: "0 \<le> ?w1 * price_per_ml_with_loss mat" using w0 pr by (rule mult_nonneg_nonneg)
  have wp: "?w1 * price_per_ml_with_loss mat \<le> ?w2 * price_per_ml_with_loss mat"
    using w pr by (rule mult_right_mono)
  have mc0: "0 \<le> ?w1 * price_per_ml_with_loss mat * ?tf" using wp0 tf by (rule mult_nonneg_nonneg)
  have mc: "?w1 * price_per_ml_with_loss mat * ?tf \<le> ?w2 * price_per_ml_with_loss mat * ?tf"
    using wp tf by (rule mult_right_mono)
  have hh: "hours1 \<le> hours2" using nn w h1 h2 by (rule machine_time_hours_le)
  note basic = price_breakdown_mono_basic [OF nn bp c w mc hh, of ?e1 sm ap ?e2]
  have mkf: "markup_values_nondecreasing self \<longrightarrow> markup_factor b1 \<le> markup_factor b2"
    unfolding b1 b2 using e by (blast intro: price_breakdown_mono_markup)
  have pkf: "packaging_values_nondecreasing self \<longrightarrow> packaging_cost b1 \<le> packaging_cost b2"
    unfolding b1 b2 using e by (blast intro: price_breakdown_mono_packaging)
  have plate: "markup_values_nondecreasing self \<and> (\<forall>d. ld = Some d \<longrightarrow> 0 \<le> d) \<longrightarrow>
            price_ht_plate b1 \<le> price_ht_plate b2"
  proof
    assume a: "markup_values_nondecreasing self \<and> (\<forall>d. ld = Some d \<longrightarrow> 0 \<le> d)"
    then have hh0: "0 \<le> hours1" using machine_time_hours_nonneg [OF nn _ w0 h1] by blast
    from a have mk: "markup_values_nondecreasing self" by simp
    show "price_ht_plate b1 \<le> price_ht_plate b2"
      unfolding b1 b2 using nn mk e mc0 mc hh0 hh by (rule price_breakdown_mono_plate)
  qed
  have totals: "markup_values_nondecreasing self \<and> packaging_values_nondecreasing self \<and>
          (\<forall>d. ld = Some d \<longrightarrow> 0 \<le> d) \<longrightarrow>
            total_ht b1 \<le> total_ht b2 \<and> vat b1 \<le> vat b2 \<and> total_ttc b1 \<le> total_ttc b2"
  proof
    assume a: "markup_values_nondecreasing self \<and> packaging_values_nondecreasing self \<and>
          (\<forall>d. ld = Some d \<longrightarrow> 0 \<le> d)"
    then have hh0: "0 \<le> hours1" using machine_time_hours_nonneg [OF nn _ w0 h1] by blast
    from a have mk: "markup_values_nondecreasing self"
      and pk: "packaging_values_nondecreasing self" by simp_all
    note t = price_breakdown_mono_totals [OF nn mk pk bp c e mc0 mc hh0 hh, of ?w1 sm ap ?w2]
    show "total_ht b1 \<le> total_ht b2 \<and> vat b1 \<le> vat b2 \<and> total_ttc b1 \<le> total_ttc b2"
      unfolding b1 b2 by (intro conjI t)
  qed
  have first: "material_cost b1 \<le> material_cost b2 \<and>
         machine_cost b1 \<le> machine_cost b2 \<and>
         base_cost b1 \<le> base_cost b2 \<and>
         post_cost b1 \<le> post_cost b2 \<and>
         finish_cost b1 \<le> finish_cost b2 \<and>
         painting_cost b1 \<le> painting_cost b2 \<and>
         total_cost_before_markup b1 \<le> total_cost_before_markup b2 \<and>
         bag_cost b1 \<le> bag_cost b2 \<and>
         shipping_cost b1 \<le> shipping_cost b2 \<and>
         volume_with_supports_ml b1 \<le> volume_with_supports_ml b2 \<and>
         print_time_minutes b1 \<le> print_time_minutes b2"
    unfolding b1 b2 by (intro conjI basic)
  from first mkf pkf plate totals show ?thesis by blast
qed

lemma ex_engine_nonneg: "nonneg_config ex_engine"
  by (simp add: nonneg_config_def ex_engine_def)

lemma ex_engine_tiers:
  "markup_values_nondecreasing ex_engine" "packaging_values_nondecreasing ex_engine"
  by (simp_all add: markup_values_nondecreasing_def packaging_values_nondecreasing_def
      ex_engine_def)

lemma ex_engine_speed: "speed_mm_s ex_engine ''Resin'' \<noteq> 0"
  by (simp add: speed_mm_s_def ex_engine_def)

text \<open>
  The quantities 1 and 2 on \<open>ex_engine\<close>, whose markup rises from 1.0 to 1.2 and whose
  packaging price rises from 3 to 5, with a largest dimension of 120 mm.
\<close>

theorem quote_monotone_in_quantity_witness:
  "nonneg_config ex_engine \<and> (0::real) \<le> 10 \<and> (1::int) \<le> 2 \<and>
   markup_values_nondecreasing ex_engine \<and> packaging_values_nondecreasing ex_engine \<and>
   (0::real) \<le> 120 \<and>
   (\<exists>b1 b2.
      compute_quote ex_engine 10 ''Resin'' ''Standard'' ''Fragile'' 1 ''retrait'' False (Some 120)
        = Inr b1 \<and>
      compute_quote ex_engine 10 ''Resin'' ''Standard'' ''Fragile'' 2 ''retrait'' False (Some 120)
        = Inr b2 \<and>
      material_cost b1 \<le> material_cost b2 \<and> markup_factor b1 \<le> markup_factor b2 \<and>
      packaging_cost b1 \<le> packaging_cost b2 \<and> price_ht_plate b1 \<le> price_ht_plate b2 \<and>
      total_ttc b1 \<le> total_ttc b2)"
proof -
  obtain b1 where b1:
    "compute_quote ex_engine 10 ''Resin'' ''Standard'' ''Fragile'' 1 ''retrait'' False (Some 120) = Inr b1"
    using compute_quote_succeeds
      [OF ex_engine_resin small_quantity_converts(1) disjI2 [OF ex_engine_speed]]
    by blast
  obtain b2 where b2:
    "compute_quote ex_engine 10 ''Resin'' ''Standard'' ''Fragile'' 2 ''retrait'' False (Some 120) = Inr b2"
    using compute_quote_succeeds
      [OF ex_engine_resin small_quantity_converts(2) disjI2 [OF ex_engine_speed]]
    by blast
  have v0: "(0::real) \<le> 10" by simp
  have q: "(1::int) \<le> 2" by simp
  have d0: "(0::real) \<le> 120" by simp
  have ld: "\<forall>d. Some (120::real) = Some d \<longrightarrow> 0 \<le> d" by simp
  from quote_monotone_in_quantity [OF ex_engine_nonneg v0 q b1 b2] ex_engine_tiers ld
  have "material_cost b1 \<le> material_cost b2 \<and> markup_factor b1 \<le> markup_factor b2 \<and>
      packaging_cost b1 \<le> packaging_cost b2 \<and> price_ht_plate b1 \<le> price_ht_plate b2 \<and>
      total_ttc b1 \<le> total_ttc b2"
    by blast
  with b1 b2 ex_engine_nonneg ex_engine_tiers v0 q d0 show ?thesis by blast
qed

lemma discount_engine_quotes:
  "compute_quote discount_engine 30 ''Resin'' ''Standard'' ''Fragile'' 1 ''retrait'' False None
     = Inr (price_breakdown discount_engine 1 30 30 15 (2061 / 1000) ''retrait'' False 2)"
  "compute_quote discount_engine 30 ''Resin'' ''Standard'' ''Fragile'' 2 ''retrait'' False None
     = Inr (price_breakdown discount_engine 2 60 60 30 (2061 / 500) ''retrait'' False 2)"
  by (simp_all add: compute_quote_unfold machine_time_hours_def discount_engine_def ex_engine_def
      volume_with_supports_def support_percent_of_def type_factor_of_def bag_price_of_def
      eff_volume_ml_def float_of_int_def clamp_quantity_def)

text \<open>
  C2 as stated fails: every value of \<open>discount_engine\<close> is non-negative, and with a volume
  of 30 ml the price of the plate falls from 101.52315 for one part (30 ml, markup 3) to
  67.6821 for two parts (60 ml, markup 1).
\<close>

theorem markup_discount_breaks_monotonicity:
  "nonneg_config discount_engine \<and> (0::real) \<le> 30 \<and> (1::int) \<le> 2 \<and>
   map_sum id price_ht_plate
     (compute_quote discount_engine 30 ''Resin'' ''Standard'' ''Fragile'' 1 ''retrait'' False None)
     = Inr (2030463 / 20000) \<and>
   map_sum id price_ht_plate
     (compute_quote discount_engine 30 ''Resin'' ''Standard'' ''Fragile'' 2 ''retrait'' False None)
     = Inr (676821 / 10000) \<and>
   (676821 / 10000 :: real) < 2030463 / 20000"
proof -
  have nn: "nonneg_config discount_engine"
    by (simp add: nonneg_config_def discount_engine_def ex_engine_def)
  have p1: "price_ht_plate (price_breakdown discount_engine 1 30 30 15 (2061 / 1000) ''retrait'' False 2)
              = 2030463 / 20000"
    by (simp add: price_breakdown_totals price_breakdown_fields get_markup_factor_def
        discount_engine_def ex_engine_def)
  have p2: "price_ht_plate (price_breakdown discount_engine 2 60 60 30 (2061 / 500) ''retrait'' False 2)
              = 676821 / 10000"
    by (simp add: price_breakdown_totals price_breakdown_fields get_markup_factor_def
        discount_engine_def ex_engine_def)
  show ?thesis using nn by (simp add: discount_engine_quotes p1 p2)
qed

text \<open>
  The other conditions are needed as well. A packaging price that falls at a higher
  tier makes the packaging cost fall from 3 to 1.
\<close>

lemma packaging_discount_breaks_monotonicity:
  "nonneg_config packaging_discount_engine \<and>
   map_sum id packaging_cost
     (compute_quote packaging_discount_engine 30 ''Resin'' ''Standard'' ''Fragile'' 1 ''retrait''
        False None) = Inr 3 \<and>
   map_sum id packaging_cost
     (compute_quote packaging_discount_engine 30 ''Resin'' ''Standard'' ''Fragile'' 2 ''retrait''
        False None) = Inr 1"
  by (simp add: compute_quote_unfold machine_time_hours_def price_breakdown_fields
      get_packaging_cost_def eff_volume_ml_def nonneg_config_def packaging_discount_engine_def
      ex_engine_def float_of_int_def clamp_quantity_def)

text \<open>
  A first markup factor below the default 1.0 makes the markup factor fall from 1 to 0.5
  when the volume reaches the first threshold.
\<close>

lemma markup_below_default_breaks_monotonicity:
  "nonneg_config low_markup_engine \<and>
   map_sum id markup_factor
     (compute_quote low_markup_engine 30 ''Resin'' ''Standard'' ''Fragile'' 1 ''retrait''
        False None) = Inr 1 \<and>
   map_sum id markup_factor
     (compute_quote low_markup_engine 30 ''Resin'' ''Standard'' ''Fragile'' 2 ''retrait''
        False None) = Inr (1 / 2)"
  by (simp add: compute_quote_unfold machine_time_hours_def price_breakdown_fields
      get_markup_factor_def eff_volume_ml_def nonneg_config_def low_markup_engine_def
      ex_engine_def float_of_int_def clamp_quantity_def)

text \<open>
  A negative largest dimension makes the machine cost negative: on \<open>ex_engine\<close>, whose
  tier values do not decrease, the price of the plate then falls from -787.75 to -924.6
  when the markup rises from 1.0 to 1.2.
\<close>

lemma negative_dimension_quotes:
  "compute_quote ex_engine 30 ''Resin'' ''Standard'' ''Fragile'' 1 ''retrait'' False (Some (- 360000))
     = Inr (price_breakdown ex_engine 1 30 30 15 (- 100) ''retrait'' False 2)"
  "compute_quote ex_engine 30 ''Resin'' ''Standard'' ''Fragile'' 2 ''retrait'' False (Some (- 360000))
     = Inr (price_breakdown ex_engine 2 60 60 30 (- 100) ''retrait'' False 2)"
  by (simp_all add: compute_quote_unfold machine_time_hours_def speed_mm_s_def ex_engine_def
      volume_with_supports_def support_percent_of_def type_factor_of_def bag_price_of_def
      eff_volume_ml_def float_of_int_def clamp_quantity_def)

lemma negative_dimension_breaks_monotonicity:
  "nonneg_config ex_engine \<and> markup_values_nondecreasing ex_engine \<and>
   packaging_values_nondecreasing ex_engine \<and>
   map_sum id price_ht_plate
     (compute_quote ex_engine 30 ''Resin'' ''Standard'' ''Fragile'' 1 ''retrait'' False
        (Some (- 360000))) = Inr (- 3151 / 4) \<and>
   map_sum id price_ht_plate
     (compute_quote ex_engine 30 ''Resin'' ''Standard'' ''Fragile'' 2 ''retrait'' False
        (Some (- 360000))) = Inr (- 4623 / 5)"
proof -
  have p1: "price_ht_plate (price_breakdown ex_engine 1 30 30 15 (- 100) ''retrait'' False 2)
              = - 3151 / 4"
    by (simp add: price_breakdown_totals price_breakdown_fields get_markup_factor_def
        ex_engine_def)
  have p2: "price_ht_plate (price_breakdown ex_engine 2 60 60 30 (- 100) ''retrait'' False 2)
              = - 4623 / 5"
    by (simp add: price_breakdown_totals price_breakdown_fields get_markup_factor_def
        ex_engine_def)
  show ?thesis
    using ex_engine_nonneg ex_engine_tiers by (simp add: negative_dimension_quotes p1 p2)
qed

section \<open>The mesh volume extractor\<close>

text \<open>\<open>exponent2\<close> is the binary exponent of a positive number.\<close>

lemma exponent2_bounds:
  assumes "0 < a"
  shows "2 powi exponent2 a \<le> a \<and> a < 2 powi (exponent2 a + 1)"
proof (cases "1 \<le> a")
  case True
  define n where "n = \<lfloor>a\<rfloor>"
  define k where "k = bitlen n"
  from True have n: "0 < n" by (simp add: n_def)
  from bitlen_bounds [OF n] have lo: "2 ^ nat (k - 1) \<le> n" and hi: "n < 2 ^ nat k"
    by (simp_all add: k_def)
  from n have k: "1 \<le> k" using bitlen_eq_zero_iff [of n] bitlen_nonneg [of n]
    by (simp add: k_def)
  have e: "exponent2 a = k - 1" using True by (simp add: exponent2_def k_def n_def)
  have "real_of_int (2 ^ nat (k - 1)) \<le> real_of_int n" using lo by (simp only: of_int_le_iff)
  also have "real_of_int n \<le> a" by (simp add: n_def)
  finally have l: "2 ^ nat (k - 1) \<le> a" by simp
  from hi have "n + 1 \<le> 2 ^ nat k" by simp
  then have "real_of_int (n + 1) \<le> real_of_int (2 ^ nat k)" by (simp only: of_int_le_iff)
  moreover have "a < real_of_int (n + 1)" by (simp add: n_def)
  ultimately have u: "a < 2 ^ nat k" by simp
  have p1: "(2::real) powi (k - 1) = 2 ^ nat (k - 1)" using k by (simp add: power_int_def)
  have p2: "(2::real) powi (k - 1 + 1) = 2 ^ nat k" using k by (simp add: power_int_def)
  show ?thesis unfolding e p1 p2 using l u by simp
next
  case False
  define y where "y = 1 / a"
  define n where "n = \<lceil>y\<rceil> - 1"
  define k where "k = bitlen n"
  from False assms have y1: "1 < y" by (simp add: y_def)
  then have "1 < \<lceil>y\<rceil>" by (simp add: less_ceiling_iff)
  then have n: "0 < n" by (simp add: n_def)
  from bitlen_bounds [OF n] have lo: "2 ^ nat (k - 1) \<le> n" and hi: "n < 2 ^ nat k"
    by (simp_all add: k_def)
  from n have k: "1 \<le> k" using bitlen_eq_zero_iff [of n] bitlen_nonneg [of n]
    by (simp add: k_def)
  have e: "exponent2 a = - k" using False by (simp add: exponent2_def k_def n_def y_def)
  have ny: "real_of_int n < y" by (simp add: n_def) linarith
  have "real_of_int (2 ^ nat (k - 1)) \<le> real_of_int n" using lo by (simp only: of_int_le_iff)
  also note ny
  finally have l: "2 ^ nat (k - 1) < y" by simp
  from hi have "n + 1 \<le> 2 ^ nat k" by simp
  then have "real_of_int (n + 1) \<le> real_of_int (2 ^ nat k)" by (simp only: of_int_le_iff)
  moreover have "y \<le> real_of_int (n + 1)" by (simp add: n_def)
  ultimately have u: "y \<le> 2 ^ nat k" by simp
  have a: "a = 1 / y" using assms by (simp add: y_def)
  have p1: "(2::real) powi (- k) = 1 / 2 ^ nat k" using k by (simp add: power_int_def field_simps)
  have p2: "(2::real) powi (- k + 1) = 1 / 2 ^ nat (k - 1)"
    using k by (simp add: power_int_def field_simps)
  have "1 / 2 ^ nat k \<le> 1 / y" using u y1 by (simp add: frac_le)
  then have r1: "1 / 2 ^ nat k \<le> a" by (simp only: a)
  have "1 / y < 1 / 2 ^ nat (k - 1)" using l by (simp add: frac_less2)
  then have r2: "a < 1 / 2 ^ nat (k - 1)" by (simp only: a)
  show ?thesis unfolding e p1 p2 using r1 r2 by simp
qed


text \<open>
  The rounded value is within half a unit in the last place of the exact one, and it is
  a multiple of that unit with a multiplier of at most 53 bits.
\<close>

lemma round_double_error:
  "\<bar>round_double x - x\<bar> \<le> 2 powi (exponent2 \<bar>x\<bar> - 52) / 2"
proof (cases "x = 0")
  case True
  then show ?thesis by (simp add: round_double_def)
next
  case False
  define u :: real where "u = 2 powi (exponent2 \<bar>x\<bar> - 52)"
  define n where "n = \<bar>x\<bar> / u"
  define f where "f = \<lfloor>n\<rfloor>"
  define m where "m = (if n - of_int f < 1 / 2 then f
                     else if 1 / 2 < n - of_int f then f + 1
                     else if even f then f else f + 1)"
  have u: "0 < u" by (simp add: u_def)
  have rd: "round_double x = sgn x * (of_int m * u)"
    using False by (simp add: round_double_def Let_def u_def n_def f_def m_def)
  have nu: "n * u = \<bar>x\<bar>" using u by (simp add: n_def)
  have x: "sgn x * (n * u) = x" unfolding nu by (rule sgn_mult_abs)
  have f: "of_int f \<le> n" "n < of_int f + 1" by (simp_all add: f_def)
  have near: "\<bar>of_int m - n\<bar> \<le> 1 / 2" using f by (auto simp: m_def)
  have "round_double x - x = sgn x * (of_int m * u) - sgn x * (n * u)"
    by (simp only: rd x)
  also have "\<dots> = sgn x * ((of_int m - n) * u)" by (simp add: algebra_simps)
  finally have "round_double x - x = sgn x * ((of_int m - n) * u)" .
  then have "\<bar>round_double x - x\<bar> = \<bar>of_int m - n\<bar> * u"
    using False u by (simp add: abs_mult abs_sgn_eq)
  also have "\<dots> \<le> 1 / 2 * u" using near u by (intro mult_right_mono) simp_all
  finally show ?thesis by (simp add: u_def)
qed

lemma round_double_mantissa:
  assumes "x \<noteq> 0"
  shows "\<exists>m. round_double x = sgn x * (of_int m * 2 powi (exponent2 \<bar>x\<bar> - 52)) \<and>
             2 ^ 52 \<le> m \<and> m \<le> 2 ^ 53"
proof -
  define u :: real where "u = 2 powi (exponent2 \<bar>x\<bar> - 52)"
  define n where "n = \<bar>x\<bar> / u"
  define f where "f = \<lfloor>n\<rfloor>"
  define m where "m = (if n - of_int f < 1 / 2 then f
                     else if 1 / 2 < n - of_int f then f + 1
                     else if even f then f else f + 1)"
  have u: "0 < u" by (simp add: u_def)
  have rd: "round_double x = sgn x * (of_int m * u)"
    using assms by (simp add: round_double_def Let_def u_def n_def f_def m_def)
  from assms have "0 < \<bar>x\<bar>" by simp
  from exponent2_bounds [OF this]
  have lo: "2 powi exponent2 \<bar>x\<bar> \<le> \<bar>x\<bar>" and hi: "\<bar>x\<bar> < 2 powi (exponent2 \<bar>x\<bar> + 1)"
    by simp_all
  have u52: "u * 2 ^ 52 = 2 powi exponent2 \<bar>x\<bar>"
    by (simp add: u_def power_int_diff)
  have u53: "u * 2 ^ 53 = 2 powi (exponent2 \<bar>x\<bar> + 1)"
    by (simp add: u_def power_int_diff power_int_add)
  have "2 ^ 52 \<le> n" using lo u unfolding n_def u52 [symmetric] by (simp add: field_simps)
  then have f1: "2 ^ 52 \<le> f" unfolding f_def by (simp add: le_floor_iff)
  have "n < 2 ^ 53" using hi u unfolding n_def u53 [symmetric] by (simp add: field_simps)
  then have f2: "f < 2 ^ 53" unfolding f_def by (simp add: floor_less_iff)
  have "f \<le> m \<and> m \<le> f + 1" by (simp add: m_def)
  with f1 f2 have "2 ^ 52 \<le> m \<and> m \<le> 2 ^ 53" by simp
  with rd show ?thesis unfolding u_def by blast
qed

text \<open>Rounding is symmetric about zero, and so are the float operations.\<close>

lemma round_double_minus: "round_double (- x) = - round_double x"
  by (simp add: round_double_def Let_def)

lemma fmul_commute: "fmul a b = fmul b a"
  by (simp add: fmul_def mult.commute)

lemma fsub_swap: "fsub b a = - fsub a b"
proof -
  have "fsub b a = round_double (- (a - b))" by (simp add: fsub_def)
  then show ?thesis by (simp only: round_double_minus fsub_def)
qed

lemma fmul_minus_right: "fmul a (- b) = - fmul a b"
proof -
  have "fmul a (- b) = round_double (- (a * b))" by (simp add: fmul_def)
  then show ?thesis by (simp only: round_double_minus fmul_def)
qed

lemma fadd_minus: "fadd (- a) (- b) = - fadd a b"
proof -
  have "fadd (- a) (- b) = round_double (- (a + b))" by (simp add: fadd_def)
  then show ?thesis by (simp only: round_double_minus fadd_def)
qed

lemma fdiv_minus: "fdiv (- a) c = - fdiv a c"
proof -
  have "fdiv (- a) c = round_double (- (a / c))" by (simp add: fdiv_def)
  then show ?thesis by (simp only: round_double_minus fdiv_def)
qed

lemma facet_volume_swap_23:
  "facet_volume (swap_vertices Swap_23 f) = - facet_volume f"
proof -
  obtain v1 v2 v3 where f: "f = (v1, v2, v3)" by (cases f)
  obtain a0 a1 a2 where v1: "v1 = (a0, a1, a2)" by (cases v1)
  obtain b0 b1 b2 where v2: "v2 = (b0, b1, b2)" by (cases v2)
  obtain c0 c1 c2 where v3: "v3 = (c0, c1, c2)" by (cases v3)
  have cx: "fsub (fmul c1 b2) (fmul c2 b1) = - fsub (fmul b1 c2) (fmul b2 c1)"
    by (simp only: fmul_commute [of c1 b2] fmul_commute [of c2 b1] fsub_swap [of _ "fmul b1 c2"])
  have cy: "fsub (fmul c2 b0) (fmul c0 b2) = - fsub (fmul b2 c0) (fmul b0 c2)"
    by (simp only: fmul_commute [of c2 b0] fmul_commute [of c0 b2] fsub_swap [of _ "fmul b2 c0"])
  have cz: "fsub (fmul c0 b1) (fmul c1 b0) = - fsub (fmul b0 c1) (fmul b1 c0)"
    by (simp only: fmul_commute [of c0 b1] fmul_commute [of c1 b0] fsub_swap [of _ "fmul b0 c1"])
  show ?thesis
    by (simp only: f v1 v2 v3 swap_vertices.simps facet_volume_def prod.case
        signed_tetrahedron_volume.simps Let_def cx cy cz fmul_minus_right fadd_minus fdiv_minus)
qed

lemma total_update_bounds [simp]:
  "total_volume_mm3 (update_bounds st v) = total_volume_mm3 st"
  by (cases v) simp

lemma total_add_volume [simp]:
  "total_volume_mm3 (add_volume st f) = fadd (total_volume_mm3 st) (facet_volume f)"
  by (cases f) (simp add: add_volume_def facet_volume_def)

lemma binary_loop_total:
  "total_volume_mm3 (binary_loop n c fs st)
     = foldl fadd (total_volume_mm3 st) (map facet_volume (take (max 1 (n - c)) fs))"
proof (induction fs arbitrary: c st)
  case Nil
  then show ?case by simp
next
  case (Cons f fs)
  obtain v1 v2 v3 where f: "f = (v1, v2, v3)" by (cases f)
  show ?case
  proof (cases "c + 1 \<ge> n")
    case True
    then have "max 1 (n - c) = 1" by simp
    with True f show ?thesis by (simp add: Let_def)
  next
    case False
    then have "max 1 (n - c) = Suc (n - (c + 1))" and "max 1 (n - (c + 1)) = n - (c + 1)"
      by simp_all
    then have t: "take (max 1 (n - c)) (f # fs) = f # take (max 1 (n - (c + 1))) fs"
      by simp
    have step: "binary_loop n c (f # fs) st
        = binary_loop n (c + 1) fs
            (add_volume (update_bounds (update_bounds (update_bounds st v1) v2) v3) f)"
      using False f by (simp add: Let_def)
    show ?thesis unfolding step Cons.IH t by simp
  qed
qed

lemma ascii_loop_facet:
  "ascii_loop (vertices_of_facets ((v1, v2, v3) # fs)) [] st
     = ascii_loop (vertices_of_facets fs) []
         (add_volume (update_bounds (update_bounds (update_bounds st v1) v2) v3) (v1, v2, v3))"
  by (simp add: vertices_of_facets_def Let_def)

lemma ascii_loop_total:
  "total_volume_mm3 (ascii_loop (vertices_of_facets fs) [] st)
     = foldl fadd (total_volume_mm3 st) (map facet_volume fs)"
proof (induction fs arbitrary: st)
  case Nil
  then show ?case by (simp add: vertices_of_facets_def)
next
  case (Cons f fs)
  obtain v1 v2 v3 where f: "f = (v1, v2, v3)" by (cases f)
  show ?case unfolding f ascii_loop_facet Cons.IH by simp
qed

lemma foldl_fadd_swapped:
  "foldl fadd (- a) (map facet_volume (map (swap_vertices Swap_23) fs))
     = - foldl fadd a (map facet_volume fs)"
proof (induction fs arbitrary: a)
  case Nil
  then show ?case by simp
next
  case (Cons f fs)
  have "foldl fadd (- a) (map facet_volume (map (swap_vertices Swap_23) (f # fs)))
          = foldl fadd (- fadd a (facet_volume f))
              (map facet_volume (map (swap_vertices Swap_23) fs))"
    by (simp add: facet_volume_swap_23 fadd_minus del: map_map)
  also have "\<dots> = - foldl fadd (fadd a (facet_volume f)) (map facet_volume fs)"
    by (rule Cons.IH)
  finally show ?case by simp
qed

lemma accumulate_swapped:
  "accumulate (map (swap_vertices Swap_23) fs) = - accumulate fs"
  using foldl_fadd_swapped [of 0 fs] by (simp add: accumulate_def del: map_map)

lemma fst_finish: "fst (finish st) = fdiv \<bar>total_volume_mm3 st\<bar> 1000"
  by (simp add: finish_def Let_def)

lemma loop_totals:
  "total_volume_mm3 (binary_loop n 0 fs init_state) = accumulate (take (max 1 n) fs)"
  "total_volume_mm3 (ascii_loop (vertices_of_facets fs) [] init_state) = accumulate fs"
  by (simp_all add: binary_loop_total ascii_loop_total accumulate_def init_state_def)

text \<open>
  C5 (amended). Swapping the second and the third vertex of a facet negates its signed
  tetrahedron contribution exactly. For every list of facets, swapping the second and
  the third vertex of every facet negates the sum accumulated by the loop of the binary
  branch (for every declared triangle count) and by the loop of the text branch, and
  leaves the volume returned unchanged; that volume is the absolute value of the
  accumulated sum divided by 1000.
\<close>

theorem winding_reversal_keeps_volume:
  "facet_volume (swap_vertices Swap_23 f) = - facet_volume f \<and>
   total_volume_mm3 (binary_loop n 0 (map (swap_vertices Swap_23) fs) init_state)
     = - total_volume_mm3 (binary_loop n 0 fs init_state) \<and>
   total_volume_mm3 (ascii_loop (vertices_of_facets (map (swap_vertices Swap_23) fs)) [] init_state)
     = - total_volume_mm3 (ascii_loop (vertices_of_facets fs) [] init_state) \<and>
   fst (finish (binary_loop n 0 (map (swap_vertices Swap_23) fs) init_state))
     = fst (finish (binary_loop n 0 fs init_state)) \<and>
   fst (finish (ascii_loop (vertices_of_facets (map (swap_vertices Swap_23) fs)) [] init_state))
     = fst (finish (ascii_loop (vertices_of_facets fs) [] init_state)) \<and>
   fst (finish (binary_loop n 0 fs init_state)) = fdiv \<bar>accumulate (take (max 1 n) fs)\<bar> 1000 \<and>
   fst (finish (ascii_loop (vertices_of_facets fs) [] init_state)) = fdiv \<bar>accumulate fs\<bar> 1000"
proof -
  have b: "total_volume_mm3 (binary_loop n 0 (map (swap_vertices Swap_23) fs) init_state)
     = - total_volume_mm3 (binary_loop n 0 fs init_state)"
    by (simp only: loop_totals take_map accumulate_swapped)
  have a: "total_volume_mm3 (ascii_loop (vertices_of_facets (map (swap_vertices Swap_23) fs)) [] init_state)
     = - total_volume_mm3 (ascii_loop (vertices_of_facets fs) [] init_state)"
    by (simp only: loop_totals accumulate_swapped)
  have b': "fst (finish (binary_loop n 0 fs init_state))
     = fdiv \<bar>accumulate (take (max 1 n) fs)\<bar> 1000"
    by (simp only: fst_finish loop_totals)
  have a': "fst (finish (ascii_loop (vertices_of_facets fs) [] init_state))
     = fdiv \<bar>accumulate fs\<bar> 1000"
    by (simp only: fst_finish loop_totals)
  have c4: "fst (finish (binary_loop n 0 (map (swap_vertices Swap_23) fs) init_state))
     = fst (finish (binary_loop n 0 fs init_state))"
    by (simp only: fst_finish b abs_minus_cancel)
  have c5: "fst (finish (ascii_loop (vertices_of_facets (map (swap_vertices Swap_23) fs)) [] init_state))
     = fst (finish (ascii_loop (vertices_of_facets fs) [] init_state))"
    by (simp only: fst_finish a abs_minus_cancel)
  have c1: "facet_volume (swap_vertices Swap_23 f) = - facet_volume f"
    by (rule facet_volume_swap_23)
  show ?thesis
    by (rule conjI [OF c1 conjI [OF b conjI [OF a conjI [OF c4 conjI [OF c5 conjI [OF b' a']]]]]])
qed

text \<open>
  C5 as stated fails: for \<open>skew_facet\<close> the extractor returns the double nearest to
  0.0005 ml, and 0.0 ml once the first and the second vertex are swapped.
\<close>

theorem first_vertex_swap_changes_volume:
  "fst (finish (binary_loop 1 0 [skew_facet] init_state))
     = 1152921504606847 / 2305843009213693952 \<and>
   fst (finish (binary_loop 1 0 [swap_vertices Swap_12 skew_facet] init_state)) = 0"
proof -
  have v: "fdiv \<bar>accumulate [skew_facet]\<bar> 1000 = 1152921504606847 / 2305843009213693952"
    "fdiv \<bar>accumulate [swap_vertices Swap_12 skew_facet]\<bar> 1000 = 0"
    by code_simp+
  show ?thesis by (simp add: fst_finish loop_totals v)
qed

text \<open>
  Listing the vertices in reverse order swaps the first and the third: the volume of
  \<open>skew_facet\<close> then becomes the double nearest to 0.000167 ml.
\<close>

lemma reversed_order_changes_volume:
  "fst (finish (binary_loop 1 0 [swap_vertices Swap_13 skew_facet] init_state))
     = 6148914691236517 / 36893488147419103232"
proof -
  have v: "fdiv \<bar>accumulate [swap_vertices Swap_13 skew_facet]\<bar> 1000
             = 6148914691236517 / 36893488147419103232"
    by code_simp
  show ?thesis by (simp add: fst_finish loop_totals v)
qed

text \<open>
  In exact arithmetic every swap of two vertices negates the contribution, and the
  exact contribution of \<open>skew_facet\<close> is -1/6, where the rounded one is 1/2: the
  differences above are rounding.
\<close>

lemma exact_facet_volume_swap:
  "exact_facet_volume (swap_vertices s f) = - exact_facet_volume f"
proof -
  obtain v1 v2 v3 where f: "f = (v1, v2, v3)" by (cases f)
  obtain a0 a1 a2 where v1: "v1 = (a0, a1, a2)" by (cases v1)
  obtain b0 b1 b2 where v2: "v2 = (b0, b1, b2)" by (cases v2)
  obtain c0 c1 c2 where v3: "v3 = (c0, c1, c2)" by (cases v3)
  show ?thesis
    by (cases s) (simp_all add: f v1 v2 v3 exact_facet_volume_def field_simps)
qed

lemma exact_skew_facet_volume: "exact_facet_volume skew_facet = - (1 / 6)"
  by (simp add: exact_facet_volume_def skew_facet_def)

text \<open>Rounding to double precision on some values.\<close>

lemma round_double_examples:
  "round_double 3 = 3"
  "round_double (1 / 10) = 3602879701896397 / 36028797018963968"
  "round_double (2 ^ 53 + 1) = 2 ^ 53"
  "round_double (2 ^ 53 + 3) = 2 ^ 53 + 4"
  "round_double (- (1 / 3)) = - (6004799503160661 / 18014398509481984)"
  by code_simp+


section \<open>Format detection\<close>

lemma lower_byte_eq_iff:
  assumes lo: "97 \<le> (of_char b :: nat)" and hi: "(of_char b :: nat) \<le> 122"
  shows "lower_byte a = b \<longleftrightarrow> a = b \<or> (of_char a :: nat) + 32 = of_char b"
proof (cases "65 \<le> (of_char a :: nat) \<and> (of_char a :: nat) \<le> 90")
  case True
  then have l: "lower_byte a = char_of ((of_char a :: nat) + 32)"
    by (simp add: lower_byte_def Let_def)
  have ne: "a \<noteq> b" using True lo by auto
  show ?thesis
  proof
    assume "lower_byte a = b"
    then have "(of_char (char_of ((of_char a :: nat) + 32)) :: nat) = of_char b" using l by simp
    moreover have "((of_char a :: nat) + 32) mod 256 = of_char a + 32" using True by simp
    ultimately show "a = b \<or> (of_char a :: nat) + 32 = of_char b" by simp
  next
    assume "a = b \<or> (of_char a :: nat) + 32 = of_char b"
    with ne have "(of_char a :: nat) + 32 = of_char b" by simp
    then show "lower_byte a = b" using l by simp
  qed
next
  case False
  then have l: "lower_byte a = a" by (auto simp: lower_byte_def Let_def)
  have "(of_char a :: nat) + 32 \<noteq> of_char b" using False lo hi by auto
  with l show ?thesis by simp
qed

lemma solid_letters:
  assumes "b \<in> set ''solid''"
  shows "97 \<le> (of_char b :: nat) \<and> (of_char b :: nat) \<le> 122"
  using assms by auto

lemma lower_marker_iff:
  "bytes_lower (take 5 data) = ''solid'' \<longleftrightarrow> begins_with_ignoring_case ''solid'' data"
proof
  assume eq: "bytes_lower (take 5 data) = ''solid''"
  then have "list_all2 (\<lambda>a b. lower_byte a = b) (take 5 data) ''solid''"
    unfolding bytes_lower_def by (simp only: list_all2_map1 [symmetric] list.rel_eq)
  then have "list_all2 (\<lambda>a b. a = b \<or> (of_char a :: nat) + 32 = of_char b) (take 5 data) ''solid''"
  proof (rule list.rel_mono_strong)
    fix a b assume "a \<in> set (take 5 data)" and b: "b \<in> set ''solid''" and "lower_byte a = b"
    then show "a = b \<or> (of_char a :: nat) + 32 = of_char b"
      using lower_byte_eq_iff [of b a] solid_letters [OF b] by blast
  qed
  moreover have "data = take 5 data @ drop 5 data" by simp
  ultimately show "begins_with_ignoring_case ''solid'' data"
    unfolding begins_with_ignoring_case_def by blast
next
  assume "begins_with_ignoring_case ''solid'' data"
  then obtain p rest where d: "data = p @ rest"
    and r: "list_all2 (\<lambda>a b. a = b \<or> (of_char a :: nat) + 32 = of_char b) p ''solid''"
    unfolding begins_with_ignoring_case_def by blast
  from r have len: "length p = 5" by (simp add: list_all2_lengthD)
  with d have t: "take 5 data = p" by simp
  from r have "list_all2 (\<lambda>a b. lower_byte a = b) p ''solid''"
  proof (rule list.rel_mono_strong)
    fix a b assume "a \<in> set p" and b: "b \<in> set ''solid''"
      and "a = b \<or> (of_char a :: nat) + 32 = of_char b"
    then show "lower_byte a = b"
      using lower_byte_eq_iff [of b a] solid_letters [OF b] by blast
  qed
  then have "map lower_byte p = ''solid''"
    by (simp only: list_all2_map1 [symmetric] list.rel_eq)
  with t show "bytes_lower (take 5 data) = ''solid''" by (simp add: bytes_lower_def)
qed

lemma bytes_contains_sublist: "bytes_contains needle data \<longleftrightarrow> sublist needle data"
  by (induction data) (simp_all add: sublist_Cons_right)

lemma sublist_take_iff:
  "sublist token (take window data) \<longleftrightarrow> occurs_within token window data"
proof
  assume "sublist token (take window data)"
  then obtain ps ss where eq: "take window data = ps @ token @ ss"
    unfolding sublist_def by blast
  let ?i = "length ps" and ?n = "length token"
  from eq have "length (take window data) = ?i + ?n + length ss" by simp
  then have "?i + ?n \<le> length (take window data)" by linarith
  then have bound: "?i + ?n \<le> min window (length data)" by (simp add: min.commute)
  then have "?i + ?n \<le> window" by simp
  then have "take ?n (drop ?i data) = take ?n (drop ?i (take window data))"
    by (simp add: drop_take min_def)
  also have "\<dots> = token" by (simp add: eq)
  finally show "occurs_within token window data"
    unfolding occurs_within_def using bound by blast
next
  assume "occurs_within token window data"
  then obtain i where bound: "i + length token \<le> min window (length data)"
    and tok: "take (length token) (drop i data) = token"
    unfolding occurs_within_def by blast
  define xs where "xs = take window data"
  define ys where "ys = drop i xs"
  from bound have "i + length token \<le> window" by simp
  then have "take (length token) ys = take (length token) (drop i data)"
    by (simp add: ys_def xs_def drop_take min_def)
  with tok have mid: "take (length token) ys = token" by simp
  have "take (length token) ys @ drop (length token) ys = ys" by (rule append_take_drop_id)
  then have ys: "token @ drop (length token) ys = ys" by (simp only: mid)
  have "take i xs @ ys = xs" unfolding ys_def by (rule append_take_drop_id)
  then have "xs = take i xs @ token @ drop (length token) ys" by (simp only: ys)
  then show "sublist token (take window data)" unfolding sublist_def xs_def by blast
qed

lemma is_ascii_iff:
  "is_ascii data \<longleftrightarrow>
     begins_with_ignoring_case ''solid'' data \<and> occurs_within ''facet'' 200 data"
  by (simp only: is_ascii_def lower_marker_iff bytes_contains_sublist sublist_take_iff)

text \<open>
  C8. A payload is parsed as the text format if and only if it begins, ignoring case,
  with the marker \<open>solid\<close> and the token \<open>facet\<close> occurs within its first 200 bytes;
  every other payload is parsed as the binary format.
\<close>

theorem format_detection:
  "compute_volume_and_bbox lib data =
     (if begins_with_ignoring_case ''solid'' data \<and> occurs_within ''facet'' 200 data
      then ascii_branch lib data else binary_branch lib data)"
  by (simp only: compute_volume_and_bbox_def is_ascii_iff)

text \<open>
  C7. A payload that is classified as binary and is shorter than 84 bytes yields the
  volume 0.0 and the bounding box (0.0, 0.0, 0.0); the model of the extractor has no
  failure.
\<close>

theorem short_binary_payload:
  assumes "\<not> is_ascii data" and "length data < 84"
  shows "compute_volume_and_bbox lib data = (0, (0, 0, 0))"
  using assms by (simp add: compute_volume_and_bbox_def binary_branch_def)

text \<open>A payload of ten bytes that does not begin with the marker.\<close>

theorem short_binary_payload_witness:
  "\<not> is_ascii ''binary stl'' \<and> length ''binary stl'' < 84 \<and>
   compute_volume_and_bbox stub_lib ''binary stl'' = (0, (0, 0, 0))"
proof -
  have h1: "\<not> is_ascii ''binary stl''" by (simp add: is_ascii_def bytes_lower_def lower_byte_def)
  have h2: "length ''binary stl'' < 84" by simp
  from short_binary_payload [OF h1 h2] h1 h2 show ?thesis by blast
qed

text \<open>The marker is matched ignoring case, the token \<open>facet\<close> as it is written.\<close>

lemma detection_examples:
  "is_ascii ''SOLID cube facet normal 0 0 1''"
  "\<not> is_ascii ''solid cube FACET normal 0 0 1''"
  by code_simp+

end
